theory Spec2Isabelle
  imports Complex_Main
begin

section \<open>JavaScript numbers\<close>

text \<open>
  Every quantity of the program is a JavaScript \<open>number\<close>. The model keeps the four
  kinds of value an IEEE double can be (finite, the two infinities, NaN), because the
  program divides by values that can be zero and nothing in it guards the result.
  Finite arithmetic is exact: rounding, overflow and underflow of doubles are not
  modelled, and the two zeros are one value, so a zero divisor is read as the positive
  zero. In \<open>calculateGrip\<close> the only divisor that can be zero is a result of
  \<open>Math.sqrt\<close>, which is never the negative zero. In \<open>mapScreenToWorld\<close> the sign
  of a zero \<open>vec.z\<close> is lost; no statement below depends on it.
\<close>

datatype number = Fin real | Infinity | NegInfinity | NaN

definition signedInfinity :: "real \<Rightarrow> number" where
  "signedInfinity s = (if 0 < s then Infinity else if s < 0 then NegInfinity else NaN)"

instantiation number :: "{plus, minus, uminus, times, divide, ord}"
begin

fun plus_number :: "number \<Rightarrow> number \<Rightarrow> number" where
  "plus_number (Fin a) (Fin b) = Fin (a + b)"
| "plus_number NaN _ = NaN"
| "plus_number _ NaN = NaN"
| "plus_number Infinity NegInfinity = NaN"
| "plus_number NegInfinity Infinity = NaN"
| "plus_number Infinity _ = Infinity"
| "plus_number _ Infinity = Infinity"
| "plus_number NegInfinity _ = NegInfinity"
| "plus_number _ NegInfinity = NegInfinity"

fun uminus_number :: "number \<Rightarrow> number" where
  "uminus_number (Fin a) = Fin (- a)"
| "uminus_number Infinity = NegInfinity"
| "uminus_number NegInfinity = Infinity"
| "uminus_number NaN = NaN"

definition minus_number :: "number \<Rightarrow> number \<Rightarrow> number" where
  "minus_number a b = a + (- b)"

fun times_number :: "number \<Rightarrow> number \<Rightarrow> number" where
  "times_number (Fin a) (Fin b) = Fin (a * b)"
| "times_number NaN _ = NaN"
| "times_number _ NaN = NaN"
| "times_number Infinity (Fin b) = signedInfinity b"
| "times_number NegInfinity (Fin b) = signedInfinity (- b)"
| "times_number (Fin a) Infinity = signedInfinity a"
| "times_number (Fin a) NegInfinity = signedInfinity (- a)"
| "times_number Infinity Infinity = Infinity"
| "times_number Infinity NegInfinity = NegInfinity"
| "times_number NegInfinity Infinity = NegInfinity"
| "times_number NegInfinity NegInfinity = Infinity"

fun divide_number :: "number \<Rightarrow> number \<Rightarrow> number" where
  "divide_number (Fin a) (Fin b) = (if b = 0 then signedInfinity a else Fin (a / b))"
| "divide_number NaN _ = NaN"
| "divide_number _ NaN = NaN"
| "divide_number (Fin a) Infinity = Fin 0"
| "divide_number (Fin a) NegInfinity = Fin 0"
| "divide_number Infinity (Fin b) = (if b < 0 then NegInfinity else Infinity)"
| "divide_number NegInfinity (Fin b) = (if b < 0 then Infinity else NegInfinity)"
| "divide_number Infinity Infinity = NaN"
| "divide_number Infinity NegInfinity = NaN"
| "divide_number NegInfinity Infinity = NaN"
| "divide_number NegInfinity NegInfinity = NaN"

fun less_number :: "number \<Rightarrow> number \<Rightarrow> bool" where
  "less_number (Fin a) (Fin b) = (a < b)"
| "less_number NaN _ = False"
| "less_number _ NaN = False"
| "less_number _ NegInfinity = False"
| "less_number Infinity _ = False"
| "less_number NegInfinity _ = True"
| "less_number _ Infinity = True"

definition less_eq_number :: "number \<Rightarrow> number \<Rightarrow> bool" where
  "less_eq_number a b = (a < b \<or> (a = b \<and> a \<noteq> NaN))"

instance ..

end

instantiation number :: inverse
begin

definition inverse_number :: "number \<Rightarrow> number" where
  "inverse_number a = divide (Fin 1) a"

instance ..

end

text \<open>\<open>a !== b\<close> on numbers: NaN differs from everything, itself included.\<close>

definition strictNotEqual :: "number \<Rightarrow> number \<Rightarrow> bool" where
  "strictNotEqual a b = (a = NaN \<or> b = NaN \<or> a \<noteq> b)"

fun Math_sqrt :: "number \<Rightarrow> number" where
  "Math_sqrt (Fin a) = (if a < 0 then NaN else Fin (sqrt a))"
| "Math_sqrt Infinity = Infinity"
| "Math_sqrt NegInfinity = NaN"
| "Math_sqrt NaN = NaN"

text \<open>\<open>Math.pow(x, n)\<close> for the exponents the program uses, non-negative integers.\<close>

fun Math_pow :: "number \<Rightarrow> nat \<Rightarrow> number" where
  "Math_pow x 0 = Fin 1"
| "Math_pow (Fin a) n = Fin (a ^ n)"
| "Math_pow Infinity n = Infinity"
| "Math_pow NegInfinity n = (if even n then Infinity else NegInfinity)"
| "Math_pow NaN n = NaN"

fun Math_max :: "number \<Rightarrow> number \<Rightarrow> number" where
  "Math_max NaN _ = NaN"
| "Math_max _ NaN = NaN"
| "Math_max a b = (if a < b then b else a)"

fun Math_min :: "number \<Rightarrow> number \<Rightarrow> number" where
  "Math_min NaN _ = NaN"
| "Math_min _ NaN = NaN"
| "Math_min a b = (if b < a then b else a)"

text \<open>\<open>Math.round\<close> rounds to the nearest integer, a tie towards positive infinity.\<close>

fun Math_round :: "number \<Rightarrow> number" where
  "Math_round (Fin a) = Fin (of_int \<lfloor>a + 1 / 2\<rfloor>)"
| "Math_round x = x"

fun Math_sin :: "number \<Rightarrow> number" where
  "Math_sin (Fin a) = Fin (sin a)"
| "Math_sin _ = NaN"

fun Math_cos :: "number \<Rightarrow> number" where
  "Math_cos (Fin a) = Fin (cos a)"
| "Math_cos _ = NaN"

section \<open>Data model\<close>

text \<open>A raised exception. The modelled code can only fail by reading a property of
  \<open>undefined\<close> (an array index out of range), which is a TypeError.\<close>

datatype error = TypeError

text \<open>\<open>NormalizedLandmark\<close> of the hand detector: fields \<open>x\<close>, \<open>y\<close>, \<open>z\<close>.\<close>

record NormalizedLandmark =
  lm_x :: number
  lm_y :: number
  lm_z :: number

section \<open>Gesture extraction: calculateGrip\<close>

text \<open>The local constants of \<open>calculateGrip\<close>, in the order of the source. The
  \<open>forEach\<close> over the five fingertips adds each distance to \<open>totalDist\<close>, which
  starts at 0.\<close>

definition scaleBase :: "NormalizedLandmark list \<Rightarrow> number" where
  "scaleBase landmarks =
     (let wrist = landmarks ! 0 in
      Math_sqrt (Math_pow (lm_x (landmarks ! 9) - lm_x wrist) 2 +
                 Math_pow (lm_y (landmarks ! 9) - lm_y wrist) 2))"

definition tipDist :: "NormalizedLandmark \<Rightarrow> NormalizedLandmark \<Rightarrow> number" where
  "tipDist wrist tip =
     Math_sqrt (Math_pow (lm_x tip - lm_x wrist) 2 + Math_pow (lm_y tip - lm_y wrist) 2)"

definition totalDist :: "NormalizedLandmark list \<Rightarrow> number" where
  "totalDist landmarks =
     (let wrist = landmarks ! 0;
          tips = [landmarks ! 4, landmarks ! 8, landmarks ! 12, landmarks ! 16, landmarks ! 20]
      in fold (\<lambda>tip total. total + tipDist wrist tip) tips (Fin 0))"

definition avgDist :: "NormalizedLandmark list \<Rightarrow> number" where
  "avgDist landmarks = totalDist landmarks / Fin 5"

text \<open>The indices read are 0, 4, 8, 9, 12, 16 and 20. On an array with fewer than 21
  entries one of them is \<open>undefined\<close> and reading its \<open>x\<close> raises a TypeError.\<close>

definition calculateGrip :: "NormalizedLandmark list \<Rightarrow> error + number" where
  "calculateGrip landmarks =
     (if length landmarks < 21 then Inl TypeError
      else
        let rawGrip = Fin 1 - ((avgDist landmarks / scaleBase landmarks) - Fin 0.6) / Fin 1.2
        in Inr (Math_max (Fin 0) (Math_min (Fin 1) rawGrip)))"

section \<open>Configuration and state\<close>

text \<open>The fields of \<open>CONFIG\<close> that the per-frame update reads.\<close>

definition PARTICLE_COUNT :: nat where
  "PARTICLE_COUNT = 1200"

definition SPHERE_RADIUS :: number where
  "SPHERE_RADIUS = Fin 1.5"

definition SMOOTHING_FACTOR :: number where
  "SMOOTHING_FACTOR = Fin 0.15"

definition COMPRESSION_FACTOR :: number where
  "COMPRESSION_FACTOR = Fin 0.7"

text \<open>\<open>THREE.Vector3\<close>, with the methods the program calls. They are three.js code,
  written here as three.js defines them: \<open>lerp\<close> adds \<open>(v - this) * alpha\<close> to each
  component, \<open>normalize\<close> divides by \<open>length() || 1\<close>, \<open>divideScalar(s)\<close> multiplies
  by \<open>1 / s\<close>.\<close>

record Vector3 =
  v_x :: number
  v_y :: number
  v_z :: number

definition vec3 :: "number \<Rightarrow> number \<Rightarrow> number \<Rightarrow> Vector3" where
  "vec3 a b c = \<lparr>v_x = a, v_y = b, v_z = c\<rparr>"

definition lerp :: "Vector3 \<Rightarrow> Vector3 \<Rightarrow> number \<Rightarrow> Vector3" where
  "lerp this v alpha =
     vec3 (v_x this + (v_x v - v_x this) * alpha)
          (v_y this + (v_y v - v_y this) * alpha)
          (v_z this + (v_z v - v_z this) * alpha)"

definition sub :: "Vector3 \<Rightarrow> Vector3 \<Rightarrow> Vector3" where
  "sub this v = vec3 (v_x this - v_x v) (v_y this - v_y v) (v_z this - v_z v)"

definition add :: "Vector3 \<Rightarrow> Vector3 \<Rightarrow> Vector3" where
  "add this v = vec3 (v_x this + v_x v) (v_y this + v_y v) (v_z this + v_z v)"

definition multiplyScalar :: "Vector3 \<Rightarrow> number \<Rightarrow> Vector3" where
  "multiplyScalar this s = vec3 (v_x this * s) (v_y this * s) (v_z this * s)"

definition vlength :: "Vector3 \<Rightarrow> number" where
  "vlength this =
     Math_sqrt (v_x this * v_x this + v_y this * v_y this + v_z this * v_z this)"

definition normalize :: "Vector3 \<Rightarrow> Vector3" where
  "normalize this =
     (let l = vlength this;
          s = (if l = Fin 0 \<or> l = NaN then Fin 1 else l)
      in multiplyScalar this (Fin 1 / s))"

text \<open>The camera: its position, and \<open>Vector3.unproject(camera)\<close>, which three.js
  computes from the camera's matrices and is a parameter here.\<close>

record Camera =
  cam_position :: Vector3
  cam_unproject :: "Vector3 \<Rightarrow> Vector3"

text \<open>\<open>physicsState\<close>, the smoothed values.\<close>

record PhysicsState =
  position :: Vector3
  splitFactor :: number
  gripStrength :: number
  rotationSpeed :: number
  time :: number

datatype HandGesture = NONE | GRIP | HOVER | SPLIT

datatype TrackingMode = SINGLE | DUAL | NONE_mode

record Point =
  pt_x :: number
  pt_y :: number

text \<open>\<open>HandData\<close>, the snapshot given to the HUD. Its \<open>position\<close> and
  \<open>gripStrength\<close> fields are \<open>hd_position\<close> and \<open>hd_gripStrength\<close> here.\<close>

record HandData =
  gesture :: HandGesture
  hd_position :: Point
  worldPosition :: Vector3
  isPresent :: bool
  trackingMode :: TrackingMode
  handSeparation :: number
  hd_gripStrength :: number
  energyOutput :: number

text \<open>One entry of \<open>userData.particles\<close>, built once by \<open>initThree\<close>.\<close>

record Particle =
  basePos :: Vector3
  randomOffset :: Vector3
  speed :: number

text \<open>What the loop writes for one instance: the position given to
  \<open>dummy.position.set\<close>, the target of \<open>dummy.lookAt\<close> and the scalar of
  \<open>dummy.scale.setScalar\<close>. The \<open>dummy\<close> object has no parent and every frame sets
  all three, so the matrix that \<open>updateMatrix\<close> composes (three.js code) is determined
  by them; the model keeps the three values in place of the sixteen matrix entries.\<close>

record InstanceTransform =
  it_position :: Vector3
  it_lookAt :: Vector3
  it_scale :: number

record InstancedMesh =
  mesh_position :: Vector3
  instanceMatrix :: "InstanceTransform list"
  particles :: "Particle list"

text \<open>The state the component keeps between frames: the refs and the UI state. The
  wireframe sphere and the inner core are written every frame and never read; they are
  left out.\<close>

record World =
  physicsState :: PhysicsState
  lastTimeRef :: number
  handData :: HandData
  cameraRef :: "Camera option"
  instancedParticlesRef :: "InstancedMesh option"

text \<open>What one animation tick reads from outside: whether the hand landmarker, the
  video element and the scene all exist, the video's \<open>currentTime\<close>, and the landmark
  sets \<open>detectForVideo\<close> returns for the frame if it is called.\<close>

record Tick =
  ready :: bool
  currentTime :: number
  detection :: "NormalizedLandmark list list"

definition initialPhysics :: PhysicsState where
  "initialPhysics =
     \<lparr>position = vec3 (Fin 0) (Fin 0) (Fin 0), splitFactor = Fin 0, gripStrength = Fin 0,
      rotationSpeed = Fin 0.005, time = Fin 0\<rparr>"

definition initialHandData :: HandData where
  "initialHandData =
     \<lparr>gesture = NONE, hd_position = \<lparr>pt_x = Fin 0.5, pt_y = Fin 0.5\<rparr>,
      worldPosition = vec3 (Fin 0) (Fin 0) (Fin 0), isPresent = False,
      trackingMode = NONE_mode, handSeparation = Fin 0, hd_gripStrength = Fin 0,
      energyOutput = Fin 0\<rparr>"

definition initialWorld :: "Camera option \<Rightarrow> InstancedMesh option \<Rightarrow> World" where
  "initialWorld cam mesh =
     \<lparr>physicsState = initialPhysics, lastTimeRef = Fin 0, handData = initialHandData,
      cameraRef = cam, instancedParticlesRef = mesh\<rparr>"

section \<open>Screen to world\<close>

definition mapScreenToWorld :: "Camera option \<Rightarrow> number \<Rightarrow> number \<Rightarrow> number \<Rightarrow> Vector3" where
  "mapScreenToWorld cam screenX screenY depthZ =
     (case cam of
        None \<Rightarrow> vec3 (Fin 0) (Fin 0) (Fin 0)
      | Some camera \<Rightarrow>
          let vec0 = vec3 ((Fin 1 - screenX) * Fin 2 - Fin 1) (- screenY * Fin 2 + Fin 1) (Fin 0.5);
              vec1 = cam_unproject camera vec0;
              vec = normalize (sub vec1 (cam_position camera));
              distance = (depthZ - v_z (cam_position camera)) / v_z vec
          in add (cam_position camera) (multiplyScalar vec distance))"

section \<open>The main loop: animate\<close>

subsection \<open>Vision\<close>

text \<open>The five local variables that step 1 of \<open>animate\<close> sets.\<close>

record Targets =
  targetPos :: Vector3
  targetGrip :: number
  targetSplit :: number
  tg_isPresent :: bool
  tg_trackingMode :: TrackingMode

definition defaultTargets :: Targets where
  "defaultTargets =
     \<lparr>targetPos = vec3 (Fin 0) (Fin 0) (Fin 0), targetGrip = Fin 0, targetSplit = Fin 0,
      tg_isPresent = False, tg_trackingMode = NONE_mode\<rparr>"

text \<open>The body of \<open>if (results.landmarks && results.landmarks.length > 0)\<close>. With two
  hands, landmark 9 of both is read before \<open>calculateGrip\<close> is called.\<close>

definition detectTargets :: "Camera option \<Rightarrow> NormalizedLandmark list list \<Rightarrow> error + Targets" where
  "detectTargets cam results =
     (if length results > 0 then
        (if length results = 2 then
           let h1 = results ! 0; h2 = results ! 1 in
           if length h1 \<le> 9 \<or> length h2 \<le> 9 then Inl TypeError
           else
             let cx = (lm_x (h1 ! 9) + lm_x (h2 ! 9)) / Fin 2;
                 cy = (lm_y (h1 ! 9) + lm_y (h2 ! 9)) / Fin 2;
                 dist = Math_sqrt (Math_pow (lm_x (h1 ! 9) - lm_x (h2 ! 9)) 2 +
                                   Math_pow (lm_y (h1 ! 9) - lm_y (h2 ! 9)) 2)
             in (case calculateGrip h1 of
                   Inl e \<Rightarrow> Inl e
                 | Inr g1 \<Rightarrow>
                     (case calculateGrip h2 of
                        Inl e \<Rightarrow> Inl e
                      | Inr g2 \<Rightarrow>
                          Inr \<lparr>targetPos = mapScreenToWorld cam cx cy (Fin 0),
                               targetGrip = (g1 + g2) / Fin 2,
                               targetSplit =
                                 Math_max (Fin 0) (Math_min (Fin 1) ((dist - Fin 0.1) / Fin 0.5)),
                               tg_isPresent = True, tg_trackingMode = DUAL\<rparr>))
         else
           let h1 = results ! 0 in
           if length h1 \<le> 9 then Inl TypeError
           else
             (case calculateGrip h1 of
                Inl e \<Rightarrow> Inl e
              | Inr g1 \<Rightarrow>
                  Inr \<lparr>targetPos = mapScreenToWorld cam (lm_x (h1 ! 9)) (lm_y (h1 ! 9)) (Fin 0),
                       targetGrip = g1, targetSplit = Fin 0,
                       tg_isPresent = True, tg_trackingMode = SINGLE\<rparr>))
      else Inr defaultTargets)"

text \<open>Step 1: detection runs only when the video's timestamp differs from the last one
  processed; otherwise the targets keep their defaults.\<close>

definition processVision :: "Tick \<Rightarrow> World \<Rightarrow> World \<times> (error + Targets)" where
  "processVision t w =
     (if strictNotEqual (currentTime t) (lastTimeRef w)
      then (w\<lparr>lastTimeRef := currentTime t\<rparr>, detectTargets (cameraRef w) (detection t))
      else (w, Inr defaultTargets))"

subsection \<open>Smoothing\<close>

text \<open>Step 2, and the rotation speed that step 3 stores in the state.\<close>

definition smoothPhysics :: "Targets \<Rightarrow> PhysicsState \<Rightarrow> PhysicsState" where
  "smoothPhysics tg state =
     (let tp = (if \<not> tg_isPresent tg then vec3 (Fin 0) (Fin 0) (Fin 0) else targetPos tg);
          g = gripStrength state + (targetGrip tg - gripStrength state) * SMOOTHING_FACTOR;
          s = splitFactor state + (targetSplit tg - splitFactor state) * SMOOTHING_FACTOR
      in state\<lparr>position := lerp (position state) tp SMOOTHING_FACTOR,
               gripStrength := g, splitFactor := s,
               rotationSpeed := Fin 0.005 + (g * Fin 0.05) + (s * Fin 0.02)\<rparr>)"

subsection \<open>Particles\<close>

definition compression :: "PhysicsState \<Rightarrow> number" where
  "compression state = Fin 1.0 - (gripStrength state * COMPRESSION_FACTOR)"

definition visualScale :: "PhysicsState \<Rightarrow> number" where
  "visualScale state = compression state * (Fin 1 + splitFactor state * Fin 2)"

text \<open>The body of the loop over the particles, for index \<open>i\<close> and \<open>p = data[i]\<close>:
  first the position \<open>(tx, ty, tz)\<close>, then the transform of the instance. The branch
  \<open>state.splitFactor > 0.1\<close> compares with the double that the literal \<open>0.1\<close>
  denotes, \<open>3602879701896397 / 2^55\<close>, which lies above \<open>1/10\<close>; the test is written
  with that value, so that a split equal to it takes the branch the code takes.\<close>

definition particlePosition :: "PhysicsState \<Rightarrow> nat \<Rightarrow> Particle \<Rightarrow> Vector3" where
  "particlePosition state i p =
     (let angle = time state * speed p + (Fin (real i) * Fin 0.1);
          radius = SPHERE_RADIUS * visualScale state * (Fin 1 + splitFactor state * Fin 4);
          noiseX = Math_sin (time state * Fin 2 + Fin (real i)) * splitFactor state * Fin 2;
          noiseY = Math_cos (time state * Fin 3 + Fin (real i)) * splitFactor state * Fin 2;
          noiseZ = Math_sin (time state * Fin 1.5 + Fin (real i)) * splitFactor state * Fin 2
      in if Fin (3602879701896397 / 36028797018963968) < splitFactor state
         then vec3 (Math_cos angle * radius + noiseX)
                   ((v_y (basePos p) * compression state) + noiseY)
                   (Math_sin angle * radius + noiseZ)
         else vec3 (v_x (basePos p) * compression state)
                   (v_y (basePos p) * compression state)
                   (v_z (basePos p) * compression state))"

definition particleTransform :: "PhysicsState \<Rightarrow> nat \<Rightarrow> Particle \<Rightarrow> InstanceTransform" where
  "particleTransform state i p =
     \<lparr>it_position = particlePosition state i p,
      it_lookAt = vec3 (Fin 0) (Fin 0) (Fin 0),
      it_scale = Fin 1 + gripStrength state * Fin 2\<rparr>"

text \<open>The loop \<open>for (let i = 0; i < CONFIG.PARTICLE_COUNT; i++)\<close>, over the indices
  still to visit. Where \<open>data[i]\<close> is \<open>undefined\<close>, reading \<open>p.speed\<close> raises and the
  instances written so far stay written. \<open>setMatrixAt\<close> beyond the instance buffer
  writes nothing, as the list update does.\<close>

fun particleLoop ::
  "PhysicsState \<Rightarrow> Particle list \<Rightarrow> nat list \<Rightarrow> InstanceTransform list
     \<Rightarrow> error option \<times> InstanceTransform list" where
  "particleLoop state data [] m = (None, m)"
| "particleLoop state data (i # rest) m =
     (if i < length data
      then particleLoop state data rest (m[i := particleTransform state i (data ! i)])
      else (Some TypeError, m))"

definition updateParticles :: "PhysicsState \<Rightarrow> InstancedMesh \<Rightarrow> error option \<times> InstancedMesh" where
  "updateParticles state mesh =
     (let r = particleLoop state (particles mesh) [0..<PARTICLE_COUNT] (instanceMatrix mesh)
      in (fst r, mesh\<lparr>mesh_position := position state, instanceMatrix := snd r\<rparr>))"

subsection \<open>UI snapshot\<close>

text \<open>Step 4. With a tracking mode the snapshot is rebuilt; without one, the previous
  snapshot is kept and only \<open>isPresent\<close> is overwritten. The code stores the
  \<open>state.position\<close> object itself in \<open>worldPosition\<close>, so a kept snapshot's
  \<open>worldPosition\<close> follows the later updates of the position; the model stores its
  value at the tick, and no statement below reads \<open>worldPosition\<close>.\<close>

definition syncUI :: "TrackingMode \<Rightarrow> PhysicsState \<Rightarrow> HandData \<Rightarrow> HandData" where
  "syncUI mode state prev =
     (if mode \<noteq> NONE_mode then
        \<lparr>gesture = (if Fin 0.3 < splitFactor state then SPLIT
                     else if Fin 0.5 < gripStrength state then GRIP
                     else HOVER),
         hd_position = \<lparr>pt_x = Fin 0, pt_y = Fin 0\<rparr>,
         worldPosition = position state,
         isPresent = True,
         trackingMode = mode,
         handSeparation = splitFactor state,
         hd_gripStrength = gripStrength state,
         energyOutput = (gripStrength state + splitFactor state) / Fin 2\<rparr>
      else prev\<lparr>isPresent := False\<rparr>)"

subsection \<open>One tick\<close>

text \<open>\<open>animate\<close>, one call. The result is the exception the call ends with, if any,
  and the state it leaves: an exception in step 1 leaves \<open>time\<close> and \<open>lastTimeRef\<close>
  updated, one in the particle loop leaves the smoothed state and the instances
  written before it updated and the UI snapshot as it was.\<close>

definition animate :: "Tick \<Rightarrow> World \<Rightarrow> error option \<times> World" where
  "animate t w =
     (let w1 = w\<lparr>physicsState := (physicsState w)\<lparr>time := time (physicsState w) + Fin 0.01\<rparr>\<rparr>
      in if \<not> ready t then (None, w1)
         else
           (case processVision t w1 of
              (w2, Inl e) \<Rightarrow> (Some e, w2)
            | (w2, Inr tg) \<Rightarrow>
                let state = smoothPhysics tg (physicsState w2);
                    w3 = w2\<lparr>physicsState := state\<rparr>
                in (case instancedParticlesRef w3 of
                      None \<Rightarrow>
                        (None, w3\<lparr>handData := syncUI (tg_trackingMode tg) state (handData w3)\<rparr>)
                    | Some mesh \<Rightarrow>
                        (case updateParticles state mesh of
                           (Some e, mesh') \<Rightarrow> (Some e, w3\<lparr>instancedParticlesRef := Some mesh'\<rparr>)
                         | (None, mesh') \<Rightarrow>
                             (None, w3\<lparr>instancedParticlesRef := Some mesh',
                                       handData := syncUI (tg_trackingMode tg) state (handData w3)\<rparr>)))))"

text \<open>The frames of a run, from the oldest: each tick starts from the state the one
  before left, whether or not it ended with an exception.\<close>

definition run :: "Tick list \<Rightarrow> World \<Rightarrow> World" where
  "run ticks w = fold (\<lambda>t w'. snd (animate t w')) ticks w"

section \<open>The HUD\<close>

text \<open>The three visual metrics of the \<open>HUD\<close> component.\<close>

definition pressure :: "HandData \<Rightarrow> number" where
  "pressure d = Math_round (hd_gripStrength d * Fin 100)"

definition stability :: "HandData \<Rightarrow> number" where
  "stability d = Math_max (Fin 0) (Fin 100 - (handSeparation d * Fin 100))"

definition energyLevel :: "HandData \<Rightarrow> number" where
  "energyLevel d =
     Math_min (Fin 100)
       (Math_round ((hd_gripStrength d * Fin 0.5 + handSeparation d * Fin 0.5) * Fin 100) + Fin 10)"

section \<open>Vocabulary of the statements\<close>

text \<open>A landmark with finite coordinates, the plane distance of two such points, and
  the quantities of the grip formula over the reals, as the specification words them:
  the scale is the distance from landmark 9 to the wrist, the average distance is the
  mean over the five fingertips, the grip is the clamped linear map of their ratio, the
  split is the distance of the two hands mapped linearly from \<open>[0.1, 0.6]\<close> to
  \<open>[0, 1]\<close> and clamped.\<close>

definition finLandmark :: "real \<times> real \<times> real \<Rightarrow> NormalizedLandmark" where
  "finLandmark p = \<lparr>lm_x = Fin (fst p), lm_y = Fin (fst (snd p)), lm_z = Fin (snd (snd p))\<rparr>"

definition dist2D :: "real \<times> real \<times> real \<Rightarrow> real \<times> real \<times> real \<Rightarrow> real" where
  "dist2D p q = sqrt ((fst p - fst q)\<^sup>2 + (fst (snd p) - fst (snd q))\<^sup>2)"

definition spec_scaleBase :: "(real \<times> real \<times> real) list \<Rightarrow> real" where
  "spec_scaleBase pts = dist2D (pts ! 9) (pts ! 0)"

definition spec_avgDist :: "(real \<times> real \<times> real) list \<Rightarrow> real" where
  "spec_avgDist pts = (\<Sum>i\<leftarrow>[4, 8, 12, 16, 20]. dist2D (pts ! i) (pts ! 0)) / 5"

definition spec_grip :: "real \<Rightarrow> real \<Rightarrow> real" where
  "spec_grip a s = max 0 (min 1 (1 - ((a / s) - 0.6) / 1.2))"

definition spec_split :: "real \<Rightarrow> real" where
  "spec_split d = (if d \<le> 0.1 then 0 else if 0.6 \<le> d then 1 else (d - 0.1) / 0.5)"

text \<open>The gesture as the specification classifies it, first match first.\<close>

definition spec_gesture :: "number \<Rightarrow> number \<Rightarrow> bool \<Rightarrow> HandGesture" where
  "spec_gesture split grip present =
     (if Fin 0.3 < split then SPLIT
      else if Fin 0.5 < grip then GRIP
      else if present then HOVER
      else NONE)"

text \<open>Finite numbers, and the closed unit interval.\<close>

fun isFinite :: "number \<Rightarrow> bool" where
  "isFinite (Fin a) = True"
| "isFinite _ = False"

fun toReal :: "number \<Rightarrow> real" where
  "toReal (Fin a) = a"
| "toReal _ = 0"

definition finiteVec :: "Vector3 \<Rightarrow> bool" where
  "finiteVec v = (isFinite (v_x v) \<and> isFinite (v_y v) \<and> isFinite (v_z v))"

definition finiteHand :: "NormalizedLandmark list \<Rightarrow> bool" where
  "finiteHand h = list_all (\<lambda>l. isFinite (lm_x l) \<and> isFinite (lm_y l) \<and> isFinite (lm_z l)) h"

definition in01 :: "number \<Rightarrow> bool" where
  "in01 a = (Fin 0 \<le> a \<and> a \<le> Fin 1)"

text \<open>A state whose particle data is replaced, and a state whose particle data covers
  every index of the loop.\<close>

definition setParticles :: "Particle list \<Rightarrow> World \<Rightarrow> World" where
  "setParticles ps w =
     w\<lparr>instancedParticlesRef :=
         map_option (\<lambda>m. m\<lparr>particles := ps\<rparr>) (instancedParticlesRef w)\<rparr>"

definition meshReady :: "World \<Rightarrow> bool" where
  "meshReady w =
     (case instancedParticlesRef w of
        None \<Rightarrow> True
      | Some mesh \<Rightarrow> PARTICLE_COUNT \<le> length (particles mesh))"

text \<open>Example inputs. A hand with its wrist at \<open>(x, 0)\<close>, landmark 9 at distance \<open>b\<close>
  above it and the five fingertips at distance \<open>r\<close> above it, the other landmarks at
  the wrist. A camera at \<open>z = 8\<close> with an unprojection of the shape a perspective
  camera has. A mesh of \<open>PARTICLE_COUNT\<close> equal particles.\<close>

definition exampleHand :: "real \<Rightarrow> real \<Rightarrow> real \<Rightarrow> (real \<times> real \<times> real) list" where
  "exampleHand x b r =
     (let w = (x, 0, 0); tip = (x, r, 0) in
      [w, w, w, w, tip, w, w, w, tip, (x, b, 0), w, w, tip, w, w, w, tip, w, w, w, tip])"

definition exampleCamera :: Camera where
  "exampleCamera =
     \<lparr>cam_position = vec3 (Fin 0) (Fin 0) (Fin 8),
      cam_unproject = (\<lambda>v. vec3 (v_x v * Fin 0.4) (v_y v * Fin 0.3) (Fin 7.6))\<rparr>"

definition exampleParticle :: Particle where
  "exampleParticle =
     \<lparr>basePos = vec3 (Fin 1.5) (Fin 0) (Fin 0),
      randomOffset = vec3 (Fin 0.2) (Fin (- 0.4)) (Fin 0.6),
      speed = Fin 1\<rparr>"

definition exampleMesh :: InstancedMesh where
  "exampleMesh =
     \<lparr>mesh_position = vec3 (Fin 0) (Fin 0) (Fin 0),
      instanceMatrix =
        replicate PARTICLE_COUNT
          \<lparr>it_position = basePos exampleParticle, it_lookAt = vec3 (Fin 0) (Fin 0) (Fin 0),
           it_scale = Fin 1\<rparr>,
      particles = replicate PARTICLE_COUNT exampleParticle\<rparr>"

definition exampleState :: "real \<Rightarrow> real \<Rightarrow> PhysicsState" where
  "exampleState g s = initialPhysics\<lparr>gripStrength := Fin g, splitFactor := Fin s\<rparr>"

definition exampleTargets :: Targets where
  "exampleTargets =
     \<lparr>targetPos = vec3 (Fin 1) (Fin 2) (Fin 0), targetGrip = Fin 1, targetSplit = Fin 0.5,
      tg_isPresent = True, tg_trackingMode = SINGLE\<rparr>"

definition exampleWorld :: World where
  "exampleWorld = initialWorld (Some exampleCamera) (Some exampleMesh)"

definition handTick :: "real \<Rightarrow> (real \<times> real \<times> real) list list \<Rightarrow> Tick" where
  "handTick k hands =
     \<lparr>ready = True, currentTime = Fin k, detection = map (map finLandmark) hands\<rparr>"

definition exampleTicks :: "Tick list" where
  "exampleTicks =
     [handTick 1 [exampleHand 0.5 0.2 0.12],
      handTick 2 [exampleHand 0.3 0.2 0.3, exampleHand 0.65 0.2 0.3],
      handTick 3 []]"

text \<open>A closed hand (ratio 0.6, grip 1), and a run of five ticks that see it followed
  by one tick that sees no hand.\<close>

definition fist :: "(real \<times> real \<times> real) list" where
  "fist = exampleHand 0.5 0.2 0.12"

definition gripThenLost :: "Tick list" where
  "gripThenLost =
     [handTick 1 [fist], handTick 2 [fist], handTick 3 [fist], handTick 4 [fist],
      handTick 5 [fist], handTick 6 []]"

section \<open>Arithmetic on finite numbers\<close>

lemma Fin_minus [simp]: "Fin a - Fin b = Fin (a - b)"
  by (simp add: minus_number_def)

lemma Math_pow_Fin [simp]: "Math_pow (Fin a) n = Fin (a ^ n)"
  by (cases n) simp_all

lemma Math_max_Fin [simp]: "Math_max (Fin a) (Fin b) = Fin (max a b)"
  by (simp add: max_def)

lemma Math_min_Fin [simp]: "Math_min (Fin a) (Fin b) = Fin (min a b)"
  by (simp add: min_def)

lemma less_eq_Fin [simp]: "(Fin a \<le> Fin b) = (a \<le> b)"
  by (auto simp: less_eq_number_def)

section \<open>The grip formula\<close>

lemma tipDist_fin [simp]: "tipDist (finLandmark q) (finLandmark p) = Fin (dist2D p q)"
  by (simp add: tipDist_def finLandmark_def dist2D_def not_less)

lemma nth_map_hand: "21 \<le> length pts \<Longrightarrow> i \<le> 20 \<Longrightarrow> map f pts ! i = f (pts ! i)"
  by (rule nth_map) arith

lemma scaleBase_fin:
  "21 \<le> length pts \<Longrightarrow> scaleBase (map finLandmark pts) = Fin (spec_scaleBase pts)"
  by (simp add: scaleBase_def spec_scaleBase_def finLandmark_def dist2D_def Let_def nth_map_hand not_less)

lemma avgDist_fin:
  "21 \<le> length pts \<Longrightarrow> avgDist (map finLandmark pts) = Fin (spec_avgDist pts)"
  by (simp add: avgDist_def totalDist_def spec_avgDist_def Let_def add.assoc nth_map_hand)

lemma calculateGrip_fin:
  assumes "21 \<le> length pts" "spec_scaleBase pts \<noteq> 0"
  shows "calculateGrip (map finLandmark pts) =
           Inr (Fin (spec_grip (spec_avgDist pts) (spec_scaleBase pts)))"
  using assms by (simp add: calculateGrip_def scaleBase_fin avgDist_fin spec_grip_def)

lemma spec_grip_antimono:
  assumes "0 < s" "a \<le> a'"
  shows "spec_grip a' s \<le> spec_grip a s"
proof -
  from assms have "a / s \<le> a' / s"
    by (simp add: divide_right_mono)
  then have "1 - ((a' / s) - 0.6) / 1.2 \<le> 1 - ((a / s) - 0.6) / 1.2"
    by simp
  then show ?thesis
    unfolding spec_grip_def by (intro max.mono min.mono order_refl)
qed

lemma dist2D_nonneg [simp]: "0 \<le> dist2D p q"
  by (simp add: dist2D_def)

lemma exampleHand_length [simp]: "length (exampleHand x b r) = 21"
  by (simp add: exampleHand_def Let_def)

lemma exampleHand_scaleBase [simp]: "spec_scaleBase (exampleHand x b r) = \<bar>b\<bar>"
  by (simp add: exampleHand_def spec_scaleBase_def dist2D_def Let_def)

lemma exampleHand_avgDist [simp]: "spec_avgDist (exampleHand x b r) = \<bar>r\<bar>"
  by (simp add: exampleHand_def spec_avgDist_def dist2D_def Let_def)

text \<open>
  Claim C1. For a hand whose landmarks have finite coordinates and whose scale
  \<open>scaleBase\<close> (the plane distance from landmark 9 to the wrist) is strictly positive,
  \<open>calculateGrip\<close> returns the clamp to \<open>[0, 1]\<close> of
  \<open>1 - ((avgDist / scaleBase) - 0.6) / 1.2\<close>, where \<open>avgDist\<close> is the mean plane
  distance from the five fingertips (landmarks 4, 8, 12, 16, 20) to the wrist. A ratio
  of 1.8 gives 0, a ratio of 0.6 gives 1, and with the scale held fixed a larger
  \<open>avgDist\<close> never gives a larger grip.
\<close>

theorem calculateGrip_formula:
  assumes len: "21 \<le> length pts"
    and pos: "Fin 0 < scaleBase (map finLandmark pts)"
  shows "avgDist (map finLandmark pts) = Fin (spec_avgDist pts) \<and>
         scaleBase (map finLandmark pts) = Fin (spec_scaleBase pts) \<and>
         calculateGrip (map finLandmark pts) =
           Inr (Fin (spec_grip (spec_avgDist pts) (spec_scaleBase pts))) \<and>
         (spec_avgDist pts / spec_scaleBase pts = 1.8 \<longrightarrow>
            calculateGrip (map finLandmark pts) = Inr (Fin 0)) \<and>
         (spec_avgDist pts / spec_scaleBase pts = 0.6 \<longrightarrow>
            calculateGrip (map finLandmark pts) = Inr (Fin 1)) \<and>
         (\<forall>pts'. 21 \<le> length pts' \<and> spec_scaleBase pts' = spec_scaleBase pts \<and>
                 spec_avgDist pts \<le> spec_avgDist pts' \<longrightarrow>
            (\<exists>g g'. calculateGrip (map finLandmark pts) = Inr (Fin g) \<and>
                    calculateGrip (map finLandmark pts') = Inr (Fin g') \<and>
                    0 \<le> g' \<and> g' \<le> g \<and> g \<le> 1))"
proof -
  have sb: "scaleBase (map finLandmark pts) = Fin (spec_scaleBase pts)"
    using len by (rule scaleBase_fin)
  with pos have s0: "0 < spec_scaleBase pts"
    by simp
  have cg: "calculateGrip (map finLandmark pts) =
              Inr (Fin (spec_grip (spec_avgDist pts) (spec_scaleBase pts)))"
    using len s0 by (simp add: calculateGrip_fin)
  have open_hand: "spec_avgDist pts / spec_scaleBase pts = 1.8 \<longrightarrow>
      calculateGrip (map finLandmark pts) = Inr (Fin 0)"
    by (simp add: cg spec_grip_def)
  have fist: "spec_avgDist pts / spec_scaleBase pts = 0.6 \<longrightarrow>
      calculateGrip (map finLandmark pts) = Inr (Fin 1)"
    by (simp add: cg spec_grip_def)
  have mono: "\<exists>g g'. calculateGrip (map finLandmark pts) = Inr (Fin g) \<and>
                    calculateGrip (map finLandmark pts') = Inr (Fin g') \<and>
                    0 \<le> g' \<and> g' \<le> g \<and> g \<le> 1"
    if h: "21 \<le> length pts' \<and> spec_scaleBase pts' = spec_scaleBase pts \<and>
           spec_avgDist pts \<le> spec_avgDist pts'" for pts'
  proof -
    from h s0 have "calculateGrip (map finLandmark pts') =
        Inr (Fin (spec_grip (spec_avgDist pts') (spec_scaleBase pts)))"
      using calculateGrip_fin [of pts'] by simp
    moreover from h s0
    have "spec_grip (spec_avgDist pts') (spec_scaleBase pts)
            \<le> spec_grip (spec_avgDist pts) (spec_scaleBase pts)"
      by (simp add: spec_grip_antimono)
    moreover have "0 \<le> spec_grip (spec_avgDist pts') (spec_scaleBase pts)"
      and "spec_grip (spec_avgDist pts) (spec_scaleBase pts) \<le> 1"
      by (simp_all add: spec_grip_def)
    ultimately show ?thesis
      using cg by blast
  qed
  from len sb cg open_hand fist mono show ?thesis
    by (simp add: avgDist_fin)
qed

theorem calculateGrip_formula_witness:
  "calculateGrip (map finLandmark (exampleHand 0.5 0.2 0.36)) = Inr (Fin 0) \<and>
   calculateGrip (map finLandmark (exampleHand 0.5 0.2 0.12)) = Inr (Fin 1) \<and>
   calculateGrip (map finLandmark (exampleHand 0.5 0.2 0.24)) = Inr (Fin 0.5) \<and>
   (\<exists>g g'. calculateGrip (map finLandmark (exampleHand 0.5 0.2 0.18)) = Inr (Fin g) \<and>
           calculateGrip (map finLandmark (exampleHand 0.5 0.2 0.3)) = Inr (Fin g') \<and>
           0 \<le> g' \<and> g' \<le> g \<and> g \<le> 1)"
proof -
  have pos: "Fin 0 < scaleBase (map finLandmark (exampleHand 0.5 0.2 r))" for r
    by (simp add: scaleBase_fin)
  have len: "21 \<le> length (exampleHand 0.5 0.2 r)" for r
    by simp
  have a: "calculateGrip (map finLandmark (exampleHand 0.5 0.2 0.36)) = Inr (Fin 0)"
  proof -
    have "spec_avgDist (exampleHand 0.5 0.2 0.36) / spec_scaleBase (exampleHand 0.5 0.2 0.36) = 1.8"
      by simp
    with calculateGrip_formula [OF len pos, of "0.36"] show ?thesis
      by blast
  qed
  have b: "calculateGrip (map finLandmark (exampleHand 0.5 0.2 0.12)) = Inr (Fin 1)"
  proof -
    have "spec_avgDist (exampleHand 0.5 0.2 0.12) / spec_scaleBase (exampleHand 0.5 0.2 0.12) = 0.6"
      by simp
    with calculateGrip_formula [OF len pos, of "0.12"] show ?thesis
      by blast
  qed
  have c: "calculateGrip (map finLandmark (exampleHand 0.5 0.2 0.24)) = Inr (Fin 0.5)"
  proof -
    have "spec_grip (spec_avgDist (exampleHand 0.5 0.2 0.24)) (spec_scaleBase (exampleHand 0.5 0.2 0.24)) = 0.5"
      by (simp add: spec_grip_def)
    with calculateGrip_formula [OF len pos, of "0.24"] show ?thesis
      by metis
  qed
  have d: "\<exists>g g'. calculateGrip (map finLandmark (exampleHand 0.5 0.2 0.18)) = Inr (Fin g) \<and>
           calculateGrip (map finLandmark (exampleHand 0.5 0.2 0.3)) = Inr (Fin g') \<and>
           0 \<le> g' \<and> g' \<le> g \<and> g \<le> 1"
  proof -
    have "21 \<le> length (exampleHand 0.5 0.2 0.3) \<and>
          spec_scaleBase (exampleHand 0.5 0.2 0.3) = spec_scaleBase (exampleHand 0.5 0.2 0.18) \<and>
          spec_avgDist (exampleHand 0.5 0.2 0.18) \<le> spec_avgDist (exampleHand 0.5 0.2 0.3)"
      by simp
    with calculateGrip_formula [OF len pos, of "0.18"] show ?thesis
      by blast
  qed
  from a b c d show ?thesis by blast
qed

section \<open>The split target\<close>

lemma calculateGrip_Inr:
  "21 \<le> length h \<Longrightarrow> \<exists>g. calculateGrip h = Inr g"
  by (simp add: calculateGrip_def Let_def)

lemma clamp_split:
  "Math_max (Fin 0) (Math_min (Fin 1) ((Fin d - Fin 0.1) / Fin 0.5)) = Fin (spec_split d)"
  by (simp add: spec_split_def)

lemma spec_split_range: "0 \<le> spec_split d \<and> spec_split d \<le> 1"
  by (simp add: spec_split_def)

lemma landmark9_dist:
  "Math_sqrt (Math_pow (lm_x (finLandmark p) - lm_x (finLandmark q)) 2 +
              Math_pow (lm_y (finLandmark p) - lm_y (finLandmark q)) 2) = Fin (dist2D p q)"
  by (simp add: finLandmark_def dist2D_def not_less)

lemma detectTargets_dual:
  assumes "9 < length h1" "9 < length h2"
    and "calculateGrip h1 = Inr g1" "calculateGrip h2 = Inr g2"
  shows "detectTargets cam [h1, h2] =
     Inr \<lparr>targetPos =
            mapScreenToWorld cam ((lm_x (h1 ! 9) + lm_x (h2 ! 9)) / Fin 2)
              ((lm_y (h1 ! 9) + lm_y (h2 ! 9)) / Fin 2) (Fin 0),
          targetGrip = (g1 + g2) / Fin 2,
          targetSplit =
            Math_max (Fin 0) (Math_min (Fin 1)
              ((Math_sqrt (Math_pow (lm_x (h1 ! 9) - lm_x (h2 ! 9)) 2 +
                           Math_pow (lm_y (h1 ! 9) - lm_y (h2 ! 9)) 2) - Fin 0.1) / Fin 0.5)),
          tg_isPresent = True, tg_trackingMode = DUAL\<rparr>"
  using assms by (simp add: detectTargets_def Let_def)

lemma exampleHand_nth9 [simp]: "exampleHand x b r ! 9 = (x, b, 0)"
  by (simp add: exampleHand_def Let_def)

text \<open>
  Claim C4. With two detected hands (finite coordinates), the target split is computed
  from the plane distance \<open>d\<close> between landmark 9 of the two hands: \<open>d \<le> 0.1\<close> gives
  0, \<open>d \<ge> 0.6\<close> gives 1, in between it is \<open>(d - 0.1) / 0.5\<close>, and it always lies in
  \<open>[0, 1]\<close>.
\<close>

theorem split_target:
  assumes "21 \<le> length p1" and "21 \<le> length p2"
  shows "\<exists>tg. detectTargets cam [map finLandmark p1, map finLandmark p2] = Inr tg \<and>
              tg_trackingMode tg = DUAL \<and>
              targetSplit tg = Fin (spec_split (dist2D (p1 ! 9) (p2 ! 9))) \<and>
              0 \<le> spec_split (dist2D (p1 ! 9) (p2 ! 9)) \<and>
              spec_split (dist2D (p1 ! 9) (p2 ! 9)) \<le> 1 \<and>
              (dist2D (p1 ! 9) (p2 ! 9) \<le> 0.1 \<longrightarrow> targetSplit tg = Fin 0) \<and>
              (0.6 \<le> dist2D (p1 ! 9) (p2 ! 9) \<longrightarrow> targetSplit tg = Fin 1) \<and>
              (0.1 < dist2D (p1 ! 9) (p2 ! 9) \<and> dist2D (p1 ! 9) (p2 ! 9) < 0.6 \<longrightarrow>
                 targetSplit tg = Fin ((dist2D (p1 ! 9) (p2 ! 9) - 0.1) / 0.5))"
proof -
  obtain g1 where g1: "calculateGrip (map finLandmark p1) = Inr g1"
    using calculateGrip_Inr [of "map finLandmark p1"] assms by auto
  obtain g2 where g2: "calculateGrip (map finLandmark p2) = Inr g2"
    using calculateGrip_Inr [of "map finLandmark p2"] assms by auto
  have n1: "map finLandmark p1 ! 9 = finLandmark (p1 ! 9)"
    using assms by (simp add: nth_map_hand)
  have n2: "map finLandmark p2 ! 9 = finLandmark (p2 ! 9)"
    using assms by (simp add: nth_map_hand)
  have len: "9 < length (map finLandmark p1)" "9 < length (map finLandmark p2)"
    using assms by simp_all
  have cases: "(d \<le> 0.1 \<longrightarrow> spec_split d = 0) \<and> (0.6 \<le> d \<longrightarrow> spec_split d = 1) \<and>
               (0.1 < d \<and> d < 0.6 \<longrightarrow> spec_split d = (d - 0.1) / 0.5)" for d
    by (simp add: spec_split_def)
  from detectTargets_dual [OF len g1 g2, of cam] show ?thesis
    by (simp only: n1 n2 landmark9_dist clamp_split)
       (simp add: spec_split_range cases)
qed

theorem split_target_witness:
  "(\<exists>tg. detectTargets (Some exampleCamera)
            [map finLandmark (exampleHand 0.3 0.2 0.3), map finLandmark (exampleHand 0.65 0.2 0.3)]
          = Inr tg \<and> targetSplit tg = Fin 0.5) \<and>
   (\<exists>tg. detectTargets (Some exampleCamera)
            [map finLandmark (exampleHand 0.3 0.2 0.3), map finLandmark (exampleHand 0.35 0.2 0.3)]
          = Inr tg \<and> targetSplit tg = Fin 0) \<and>
   (\<exists>tg. detectTargets (Some exampleCamera)
            [map finLandmark (exampleHand 0.1 0.2 0.3), map finLandmark (exampleHand 0.9 0.2 0.3)]
          = Inr tg \<and> targetSplit tg = Fin 1)"
proof -
  have len: "21 \<le> length (exampleHand x b r)" for x b r
    by simp
  have d: "dist2D (exampleHand x b r ! 9) (exampleHand x' b r ! 9) = \<bar>x - x'\<bar>" for x x' b r
    by (simp add: dist2D_def)
  have a: "spec_split \<bar>0.3 - 0.65\<bar> = 0.5" "spec_split \<bar>0.3 - 0.35\<bar> = 0"
    "spec_split \<bar>0.1 - 0.9\<bar> = 1"
    by (simp_all add: spec_split_def)
  from split_target [of "exampleHand 0.3 0.2 0.3" "exampleHand 0.65 0.2 0.3"
        "Some exampleCamera", OF len len]
    split_target [of "exampleHand 0.3 0.2 0.3" "exampleHand 0.35 0.2 0.3"
        "Some exampleCamera", OF len len]
    split_target [of "exampleHand 0.1 0.2 0.3" "exampleHand 0.9 0.2 0.3"
        "Some exampleCamera", OF len len]
  show ?thesis
    unfolding d a by blast
qed

section \<open>The particle loop\<close>

lemma particleLoop_None:
  "list_all (\<lambda>i. i < length data) is \<Longrightarrow> fst (particleLoop state data is m) = None"
  by (induction "is" arbitrary: m) simp_all

lemma particleLoop_length [simp]:
  "length (snd (particleLoop state data is m)) = length m"
  by (induction "is" arbitrary: m) simp_all


lemma upt_in_range: "n \<le> length data \<Longrightarrow> list_all (\<lambda>i. i < length data) [0..<n]"
  by (simp add: list_all_iff)

lemma particleTransform_cong:
  assumes b: "basePos p = basePos p'" and s: "speed p = speed p'"
  shows "particleTransform state i p = particleTransform state i p'"
  unfolding particleTransform_def particlePosition_def b s by (rule refl)

lemma particleLoop_cong:
  assumes "map basePos ps = map basePos ps'" "map speed ps = map speed ps'"
  shows "particleLoop state ps is m = particleLoop state ps' is m"
proof -
  from assms(1) have len: "length ps = length ps'"
    by (rule map_eq_imp_length_eq)
  have eq: "particleTransform state i (ps ! i) = particleTransform state i (ps' ! i)"
    if "i < length ps" for i
  proof -
    from that len have "basePos (ps ! i) = basePos (ps' ! i)"
      using assms(1) by (metis nth_map)
    moreover from that len have "speed (ps ! i) = speed (ps' ! i)"
      using assms(2) by (metis nth_map)
    ultimately show ?thesis
      by (rule particleTransform_cong)
  qed
  show ?thesis
    by (induction "is" arbitrary: m) (simp_all add: len [symmetric] eq)
qed

lemma updateParticles_particles [simp]:
  "particles (snd (updateParticles state mesh)) = particles mesh"
  by (simp add: updateParticles_def Let_def)

lemma updateParticles_ok:
  "PARTICLE_COUNT \<le> length (particles mesh) \<Longrightarrow> fst (updateParticles state mesh) = None"
  by (simp add: updateParticles_def Let_def particleLoop_None upt_in_range)


lemma updateParticles_cong:
  assumes "map basePos ps = map basePos ps'" "map speed ps = map speed ps'"
  shows "updateParticles state (mesh\<lparr>particles := ps'\<rparr>) =
         (fst (updateParticles state (mesh\<lparr>particles := ps\<rparr>)),
          (snd (updateParticles state (mesh\<lparr>particles := ps\<rparr>)))\<lparr>particles := ps'\<rparr>)"
  by (simp add: updateParticles_def Let_def particleLoop_cong [OF assms])




lemma exampleMesh_simps [simp]:
  "PARTICLE_COUNT \<le> length (particles exampleMesh)"
  "length (instanceMatrix exampleMesh) = PARTICLE_COUNT"
  "i < PARTICLE_COUNT \<Longrightarrow> particles exampleMesh ! i = exampleParticle"
  by (simp_all add: exampleMesh_def)


section \<open>The tick as a whole\<close>

lemma animate_particles:
  "map_option particles (instancedParticlesRef (snd (animate t w))) =
   map_option particles (instancedParticlesRef w)"
  by (cases "instancedParticlesRef w")
     (auto simp: animate_def processVision_def Let_def updateParticles_def
           split: prod.splits sum.splits option.splits)

lemma animate_camera [simp]: "cameraRef (snd (animate t w)) = cameraRef w"
  by (auto simp: animate_def processVision_def Let_def
           split: prod.splits sum.splits option.splits)

lemma animate_setParticles:
  assumes "map basePos ps = map basePos ps'" "map speed ps = map speed ps'"
  shows "animate t (setParticles ps' w) =
         (fst (animate t (setParticles ps w)),
          setParticles ps' (snd (animate t (setParticles ps w))))"
proof (cases "instancedParticlesRef w")
  case None
  then have "setParticles ps' w = w" "setParticles ps w = w"
    by (simp_all add: setParticles_def)
  moreover have "setParticles ps' (snd (animate t w)) = snd (animate t w)"
    using animate_particles [of t w] None by (simp add: setParticles_def)
  ultimately show ?thesis by simp
next
  case (Some mesh)
  show ?thesis
    using Some updateParticles_cong [OF assms, of _ mesh]
    by (auto simp: animate_def processVision_def Let_def setParticles_def
             split: prod.splits sum.splits option.splits)
qed

lemma processVision_stale:
  "\<not> strictNotEqual (currentTime t) (lastTimeRef w) \<Longrightarrow>
   processVision t w = (w, Inr defaultTargets)"
  by (simp add: processVision_def)

lemma processVision_physics [simp]:
  "snd (processVision t (w\<lparr>physicsState := s\<rparr>)) = snd (processVision t w)"
  by (simp add: processVision_def)

lemma animate_physics:
  assumes "ready t" and "snd (processVision t w) = Inr tg"
  shows "physicsState (snd (animate t w)) =
         smoothPhysics tg ((physicsState w)\<lparr>time := time (physicsState w) + Fin 0.01\<rparr>)"
  using assms
  by (auto simp: animate_def processVision_def Let_def
           split: prod.splits sum.splits option.splits if_splits)

lemma animate_handData:
  assumes "ready t" and "snd (processVision t w) = Inr tg" and "meshReady w"
  shows "fst (animate t w) = None \<and>
         handData (snd (animate t w)) =
           syncUI (tg_trackingMode tg) (physicsState (snd (animate t w))) (handData w)"
proof (cases "instancedParticlesRef w")
  case None
  with assms show ?thesis
    by (auto simp: animate_def processVision_def Let_def
             split: prod.splits sum.splits option.splits if_splits)
next
  case (Some mesh)
  with assms(3) have "PARTICLE_COUNT \<le> length (particles mesh)"
    by (simp add: meshReady_def)
  then have "fst (updateParticles s mesh) = None" for s
    by (rule updateParticles_ok)
  then have ok: "updateParticles s mesh = (None, snd (updateParticles s mesh))" for s
    by (metis prod.collapse)
  define s where
    "s = smoothPhysics tg ((physicsState w)\<lparr>time := time (physicsState w) + Fin 0.01\<rparr>)"
  obtain m' where m': "updateParticles s mesh = (None, m')"
    using ok by blast
  from assms(1,2) Some m' show ?thesis
    unfolding s_def
    by (auto simp: animate_def processVision_def Let_def
             split: sum.splits if_splits)
qed

lemma animate_lastTimeRef:
  "lastTimeRef (snd (animate t w)) =
     (if ready t \<and> strictNotEqual (currentTime t) (lastTimeRef w)
      then currentTime t else lastTimeRef w)"
  by (auto simp: animate_def processVision_def Let_def
           split: prod.splits sum.splits option.splits if_splits)

lemma animate_meshReady: "meshReady w \<Longrightarrow> meshReady (snd (animate t w))"
  using animate_particles [of t w]
  by (cases "instancedParticlesRef w"; cases "instancedParticlesRef (snd (animate t w))")
     (auto simp: meshReady_def)

lemma smoothPhysics_simps [simp]:
  "gripStrength (smoothPhysics tg s) =
     gripStrength s + (targetGrip tg - gripStrength s) * SMOOTHING_FACTOR"
  "splitFactor (smoothPhysics tg s) =
     splitFactor s + (targetSplit tg - splitFactor s) * SMOOTHING_FACTOR"
  "position (smoothPhysics tg s) =
     lerp (position s)
       (if tg_isPresent tg then targetPos tg else vec3 (Fin 0) (Fin 0) (Fin 0)) SMOOTHING_FACTOR"
  "time (smoothPhysics tg s) = time s"
  by (simp_all add: smoothPhysics_def Let_def)

lemma detectTargets_single:
  assumes "9 < length h" and "calculateGrip h = Inr g"
  shows "detectTargets cam [h] =
     Inr \<lparr>targetPos = mapScreenToWorld cam (lm_x (h ! 9)) (lm_y (h ! 9)) (Fin 0),
          targetGrip = g, targetSplit = Fin 0,
          tg_isPresent = True, tg_trackingMode = SINGLE\<rparr>"
  using assms by (simp add: detectTargets_def Let_def)

lemma single_hand_tick:
  assumes mesh: "meshReady w" and last: "lastTimeRef w = Fin j" "j \<noteq> k"
    and len: "21 \<le> length pts" and grip: "calculateGrip (map finLandmark pts) = Inr (Fin G)"
    and g: "gripStrength (physicsState w) = Fin g"
    and s: "splitFactor (physicsState w) = Fin 0"
  shows "meshReady (snd (animate (handTick k [pts]) w)) \<and>
         lastTimeRef (snd (animate (handTick k [pts]) w)) = Fin k \<and>
         gripStrength (physicsState (snd (animate (handTick k [pts]) w))) =
           Fin (g + (G - g) * 0.15) \<and>
         splitFactor (physicsState (snd (animate (handTick k [pts]) w))) = Fin 0 \<and>
         handData (snd (animate (handTick k [pts]) w)) =
           syncUI SINGLE (physicsState (snd (animate (handTick k [pts]) w))) (handData w)"
proof -
  let ?t = "handTick k [pts]"
  have r: "ready ?t"
    by (simp add: handTick_def)
  have fresh: "strictNotEqual (currentTime ?t) (lastTimeRef w)"
    using last by (simp add: handTick_def strictNotEqual_def)
  have "9 < length (map finLandmark pts)"
    using len by simp
  from detectTargets_single [OF this grip, of "cameraRef w"] fresh
  have pv: "snd (processVision ?t w) =
      Inr \<lparr>targetPos = mapScreenToWorld (cameraRef w) (lm_x (map finLandmark pts ! 9))
              (lm_y (map finLandmark pts ! 9)) (Fin 0),
           targetGrip = Fin G, targetSplit = Fin 0,
           tg_isPresent = True, tg_trackingMode = SINGLE\<rparr>"
    by (simp add: processVision_def handTick_def)
  have a: "meshReady (snd (animate ?t w))"
    using mesh by (rule animate_meshReady)
  have b: "lastTimeRef (snd (animate ?t w)) = Fin k"
    using r fresh by (simp add: animate_lastTimeRef) (simp add: handTick_def)
  have c: "gripStrength (physicsState (snd (animate ?t w))) = Fin (g + (G - g) * 0.15)"
    unfolding animate_physics [OF r pv] by (simp add: g SMOOTHING_FACTOR_def)
  have d: "splitFactor (physicsState (snd (animate ?t w))) = Fin 0"
    unfolding animate_physics [OF r pv] by (simp add: s SMOOTHING_FACTOR_def)
  from animate_handData [OF r pv mesh]
  have e: "handData (snd (animate ?t w)) =
      syncUI SINGLE (physicsState (snd (animate ?t w))) (handData w)"
    by simp
  from a b c d e show ?thesis
    by blast
qed

lemma no_hand_tick:
  assumes mesh: "meshReady w"
    and g: "gripStrength (physicsState w) = Fin g"
    and s: "splitFactor (physicsState w) = Fin 0"
  shows "gripStrength (physicsState (snd (animate (handTick k []) w))) = Fin (g + (0 - g) * 0.15) \<and>
         splitFactor (physicsState (snd (animate (handTick k []) w))) = Fin 0 \<and>
         handData (snd (animate (handTick k []) w)) = (handData w)\<lparr>isPresent := False\<rparr>"
proof -
  let ?t = "handTick k []"
  have r: "ready ?t"
    by (simp add: handTick_def)
  have pv: "snd (processVision ?t w) = Inr defaultTargets"
    by (simp add: processVision_def handTick_def detectTargets_def)
  have c: "gripStrength (physicsState (snd (animate ?t w))) = Fin (g + (0 - g) * 0.15)"
    unfolding animate_physics [OF r pv] by (simp add: g SMOOTHING_FACTOR_def defaultTargets_def)
  have d: "splitFactor (physicsState (snd (animate ?t w))) = Fin 0"
    unfolding animate_physics [OF r pv] by (simp add: s SMOOTHING_FACTOR_def defaultTargets_def)
  from animate_handData [OF r pv mesh]
  have e: "handData (snd (animate ?t w)) = (handData w)\<lparr>isPresent := False\<rparr>"
    by (simp add: syncUI_def defaultTargets_def)
  from c d e show ?thesis
    by blast
qed

lemma fist_grip: "21 \<le> length fist \<and> calculateGrip (map finLandmark fist) = Inr (Fin 1)"
proof -
  have "spec_grip (spec_avgDist fist) (spec_scaleBase fist) = 1"
    by (simp add: fist_def spec_grip_def)
  moreover have "21 \<le> length fist" "spec_scaleBase fist \<noteq> 0"
    by (simp_all add: fist_def)
  ultimately show ?thesis
    using calculateGrip_fin [of fist] by simp
qed

text \<open>
  Claim C10. The per-frame particle placement does not read \<open>randomOffset\<close>: the
  transform of a particle is the same whatever its \<open>randomOffset\<close>, and two ticks whose
  particle data agree on every \<open>basePos\<close> and \<open>speed\<close> end the same way and leave the
  same instance transforms (and the same state, the particle data apart). A tick leaves
  the particle data as it found it.
\<close>

theorem randomOffset_unused:
  assumes "map basePos ps = map basePos ps'" and "map speed ps = map speed ps'"
  shows "particleTransform state i (p\<lparr>randomOffset := r\<rparr>) = particleTransform state i p \<and>
         fst (animate t (setParticles ps' w)) = fst (animate t (setParticles ps w)) \<and>
         snd (animate t (setParticles ps' w)) =
           setParticles ps' (snd (animate t (setParticles ps w))) \<and>
         map_option instanceMatrix (instancedParticlesRef (snd (animate t (setParticles ps' w)))) =
           map_option instanceMatrix (instancedParticlesRef (snd (animate t (setParticles ps w)))) \<and>
         map_option particles (instancedParticlesRef (snd (animate t w))) =
           map_option particles (instancedParticlesRef w)"
proof -
  have a: "particleTransform state i (p\<lparr>randomOffset := r\<rparr>) = particleTransform state i p"
    by (rule particleTransform_cong) simp_all
  have b: "animate t (setParticles ps' w) =
         (fst (animate t (setParticles ps w)),
          setParticles ps' (snd (animate t (setParticles ps w))))"
    using assms by (rule animate_setParticles)
  have c: "map_option instanceMatrix (instancedParticlesRef (setParticles ps' v)) =
           map_option instanceMatrix (instancedParticlesRef v)" for v
    by (cases "instancedParticlesRef v") (simp_all add: setParticles_def)
  from a b c animate_particles [of t w] show ?thesis
    by simp
qed

theorem randomOffset_unused_witness:
  "particleTransform (exampleState 0.5 0.4) 7
     (exampleParticle\<lparr>randomOffset := vec3 (Fin 9) (Fin 9) (Fin 9)\<rparr>) =
   particleTransform (exampleState 0.5 0.4) 7 exampleParticle \<and>
   map_option instanceMatrix (instancedParticlesRef (snd (animate (handTick 1 [])
     (setParticles
        (replicate PARTICLE_COUNT (exampleParticle\<lparr>randomOffset := vec3 (Fin 9) (Fin 9) (Fin 9)\<rparr>))
        exampleWorld)))) =
   map_option instanceMatrix (instancedParticlesRef (snd (animate (handTick 1 [])
     (setParticles (replicate PARTICLE_COUNT exampleParticle) exampleWorld)))) \<and>
   map_option particles (instancedParticlesRef (snd (animate (handTick 1 []) exampleWorld))) =
     Some (replicate PARTICLE_COUNT exampleParticle)"
proof -
  have agree:
    "map basePos (replicate PARTICLE_COUNT exampleParticle) =
     map basePos (replicate PARTICLE_COUNT
       (exampleParticle\<lparr>randomOffset := vec3 (Fin 9) (Fin 9) (Fin 9)\<rparr>))"
    "map speed (replicate PARTICLE_COUNT exampleParticle) =
     map speed (replicate PARTICLE_COUNT
       (exampleParticle\<lparr>randomOffset := vec3 (Fin 9) (Fin 9) (Fin 9)\<rparr>))"
    by simp_all
  have data: "map_option particles (instancedParticlesRef exampleWorld) =
      Some (replicate PARTICLE_COUNT exampleParticle)"
    by (simp add: exampleWorld_def initialWorld_def exampleMesh_def)
  note facts = randomOffset_unused [where state = "exampleState 0.5 0.4" and i = 7
      and p = exampleParticle and r = "vec3 (Fin 9) (Fin 9) (Fin 9)"
      and t = "handTick 1 []" and w = exampleWorld, OF agree]
  from facts
  have "map_option particles (instancedParticlesRef (snd (animate (handTick 1 []) exampleWorld))) =
      map_option particles (instancedParticlesRef exampleWorld)"
    by blast
  with data
  have "map_option particles (instancedParticlesRef (snd (animate (handTick 1 []) exampleWorld))) =
      Some (replicate PARTICLE_COUNT exampleParticle)"
    by (rule trans [rotated])
  with facts show ?thesis
    by blast
qed

section \<open>The HUD metrics\<close>

text \<open>
  Claim C9. For a snapshot with finite grip \<open>g\<close> and separation \<open>s\<close>, the HUD shows
  pressure \<open>round (g * 100)\<close>, stability \<open>100 - s * 100\<close> clamped to be at least 0,
  and energy output \<open>round ((g * 0.5 + s * 0.5) * 100) + 10\<close> clamped to be at most 100.
\<close>

theorem hud_metrics:
  assumes "hd_gripStrength d = Fin g" and "handSeparation d = Fin s"
  shows "pressure d = Fin (of_int (round (g * 100))) \<and>
         stability d = Fin (max 0 (100 - s * 100)) \<and>
         energyLevel d = Fin (min 100 (of_int (round ((g * 0.5 + s * 0.5) * 100)) + 10))"
  using assms by (simp add: pressure_def stability_def energyLevel_def round_def)

theorem hud_metrics_witness:
  "pressure (initialHandData\<lparr>hd_gripStrength := Fin 0.5, handSeparation := Fin 0.25\<rparr>) = Fin 50 \<and>
   stability (initialHandData\<lparr>hd_gripStrength := Fin 0.5, handSeparation := Fin 0.25\<rparr>) = Fin 75 \<and>
   energyLevel (initialHandData\<lparr>hd_gripStrength := Fin 0.5, handSeparation := Fin 0.25\<rparr>) = Fin 48 \<and>
   energyLevel (initialHandData\<lparr>hd_gripStrength := Fin 1, handSeparation := Fin 1\<rparr>) = Fin 100 \<and>
   stability (initialHandData\<lparr>hd_gripStrength := Fin 0, handSeparation := Fin 1.5\<rparr>) = Fin 0"
proof -
  have r: "round (75 / 2 :: real) = 38"
    by (simp add: round_def)
  from hud_metrics [of "initialHandData\<lparr>hd_gripStrength := Fin 0.5, handSeparation := Fin 0.25\<rparr>"
      "0.5" "0.25"]
    hud_metrics [of "initialHandData\<lparr>hd_gripStrength := Fin 1, handSeparation := Fin 1\<rparr>" 1 1]
    hud_metrics [of "initialHandData\<lparr>hd_gripStrength := Fin 0, handSeparation := Fin 1.5\<rparr>" 0 "1.5"]
  show ?thesis
    by (simp add: r)
qed

section \<open>A tick without a new video frame\<close>

text \<open>
  Claim C8. On a tick where the video's \<open>currentTime\<close> equals the last processed
  timestamp (and the landmarker, the video and the scene exist), detection is skipped:
  whatever the detector would return, the targets are the defaults, so each component
  of the smoothed position, the grip and the split move one step towards 0, whatever
  the state the previous tick left; the timestamp stays, and the snapshot reports that
  no hand is present.
\<close>

theorem unchanged_timestamp_tick:
  assumes "ready t" and "\<not> strictNotEqual (currentTime t) (lastTimeRef w)"
  shows "v_x (position (physicsState (snd (animate t w)))) =
           v_x (position (physicsState w)) +
             (Fin 0 - v_x (position (physicsState w))) * SMOOTHING_FACTOR \<and>
         v_y (position (physicsState (snd (animate t w)))) =
           v_y (position (physicsState w)) +
             (Fin 0 - v_y (position (physicsState w))) * SMOOTHING_FACTOR \<and>
         v_z (position (physicsState (snd (animate t w)))) =
           v_z (position (physicsState w)) +
             (Fin 0 - v_z (position (physicsState w))) * SMOOTHING_FACTOR \<and>
         gripStrength (physicsState (snd (animate t w))) =
           gripStrength (physicsState w) + (Fin 0 - gripStrength (physicsState w)) * SMOOTHING_FACTOR \<and>
         splitFactor (physicsState (snd (animate t w))) =
           splitFactor (physicsState w) + (Fin 0 - splitFactor (physicsState w)) * SMOOTHING_FACTOR \<and>
         lastTimeRef (snd (animate t w)) = lastTimeRef w \<and>
         animate (t\<lparr>detection := d\<rparr>) w = animate t w \<and>
         (meshReady w \<longrightarrow>
            fst (animate t w) = None \<and>
            \<not> isPresent (handData (snd (animate t w))) \<and>
            trackingMode (handData (snd (animate t w))) = trackingMode (handData w) \<and>
            gesture (handData (snd (animate t w))) = gesture (handData w))"
proof -
  have pv: "snd (processVision t w) = Inr defaultTargets"
    using assms(2) by (simp add: processVision_stale)
  have phys: "physicsState (snd (animate t w)) =
      smoothPhysics defaultTargets ((physicsState w)\<lparr>time := time (physicsState w) + Fin 0.01\<rparr>)"
    using assms(1) pv by (rule animate_physics)
  have last: "lastTimeRef (snd (animate t w)) = lastTimeRef w"
    using assms(2) by (simp add: animate_lastTimeRef)
  have skip: "animate (t\<lparr>detection := d\<rparr>) w = animate t w"
    using assms by (simp add: animate_def processVision_def Let_def)
  have ui: "fst (animate t w) = None \<and>
            \<not> isPresent (handData (snd (animate t w))) \<and>
            trackingMode (handData (snd (animate t w))) = trackingMode (handData w) \<and>
            gesture (handData (snd (animate t w))) = gesture (handData w)"
    if "meshReady w"
    using animate_handData [OF assms(1) pv that]
    by (simp add: syncUI_def defaultTargets_def)
  from phys last skip ui show ?thesis
    by (simp add: defaultTargets_def lerp_def vec3_def)
qed

theorem unchanged_timestamp_tick_witness:
  "position (physicsState (snd (animate (handTick 0 [exampleHand 0.5 0.2 0.12])
      (exampleWorld\<lparr>physicsState :=
         (exampleState 0.8 0.4)\<lparr>position := vec3 (Fin 1) (Fin 2) (Fin (- 4))\<rparr>\<rparr>)))) =
     vec3 (Fin 0.85) (Fin 1.7) (Fin (- 3.4)) \<and>
   gripStrength (physicsState (snd (animate (handTick 0 [exampleHand 0.5 0.2 0.12])
      (exampleWorld\<lparr>physicsState :=
         (exampleState 0.8 0.4)\<lparr>position := vec3 (Fin 1) (Fin 2) (Fin (- 4))\<rparr>\<rparr>)))) =
     Fin 0.68 \<and>
   splitFactor (physicsState (snd (animate (handTick 0 [exampleHand 0.5 0.2 0.12])
      (exampleWorld\<lparr>physicsState :=
         (exampleState 0.8 0.4)\<lparr>position := vec3 (Fin 1) (Fin 2) (Fin (- 4))\<rparr>\<rparr>)))) =
     Fin 0.34 \<and>
   fst (animate (handTick 0 [exampleHand 0.5 0.2 0.12])
      (exampleWorld\<lparr>physicsState :=
         (exampleState 0.8 0.4)\<lparr>position := vec3 (Fin 1) (Fin 2) (Fin (- 4))\<rparr>\<rparr>)) = None \<and>
   \<not> isPresent (handData (snd (animate (handTick 0 [exampleHand 0.5 0.2 0.12])
      (exampleWorld\<lparr>physicsState :=
         (exampleState 0.8 0.4)\<lparr>position := vec3 (Fin 1) (Fin 2) (Fin (- 4))\<rparr>\<rparr>))))"
proof -
  let ?t = "handTick 0 [exampleHand 0.5 0.2 0.12]"
  let ?w = "exampleWorld\<lparr>physicsState :=
         (exampleState 0.8 0.4)\<lparr>position := vec3 (Fin 1) (Fin 2) (Fin (- 4))\<rparr>\<rparr>"
  have r: "ready ?t"
    by (simp add: handTick_def)
  have stale: "\<not> strictNotEqual (currentTime ?t) (lastTimeRef ?w)"
    by (simp add: handTick_def exampleWorld_def initialWorld_def strictNotEqual_def)
  have mesh: "meshReady ?w"
    by (simp add: meshReady_def exampleWorld_def initialWorld_def)
  have x: "v_x (position (physicsState ?w)) +
      (Fin 0 - v_x (position (physicsState ?w))) * SMOOTHING_FACTOR = Fin 0.85"
    and y: "v_y (position (physicsState ?w)) +
      (Fin 0 - v_y (position (physicsState ?w))) * SMOOTHING_FACTOR = Fin 1.7"
    and z: "v_z (position (physicsState ?w)) +
      (Fin 0 - v_z (position (physicsState ?w))) * SMOOTHING_FACTOR = Fin (- 3.4)"
    and g: "gripStrength (physicsState ?w) +
      (Fin 0 - gripStrength (physicsState ?w)) * SMOOTHING_FACTOR = Fin 0.68"
    and s: "splitFactor (physicsState ?w) +
      (Fin 0 - splitFactor (physicsState ?w)) * SMOOTHING_FACTOR = Fin 0.34"
    by (simp_all add: exampleState_def SMOOTHING_FACTOR_def vec3_def)
  note facts = unchanged_timestamp_tick [OF r stale, unfolded x y z g s]
  have pos: "position (physicsState (snd (animate ?t ?w))) =
      vec3 (Fin 0.85) (Fin 1.7) (Fin (- 3.4))"
    using facts by (simp add: vec3_def)
  from facts mesh pos show ?thesis
    by blast
qed

section \<open>Smoothing\<close>

lemma isFinite_Fin: "isFinite a \<Longrightarrow> \<exists>r. a = Fin r"
  by (cases a) simp_all

lemma smooth_iter_grip:
  assumes "gripStrength st = Fin g" "targetGrip tg = Fin T"
  shows "gripStrength ((smoothPhysics tg ^^ n) st) = Fin (T - (1 - 0.15) ^ n * (T - g))"
  using assms by (induction n) (simp_all add: SMOOTHING_FACTOR_def field_simps)

lemma smooth_iter_split:
  assumes "splitFactor st = Fin g" "targetSplit tg = Fin T"
  shows "splitFactor ((smoothPhysics tg ^^ n) st) = Fin (T - (1 - 0.15) ^ n * (T - g))"
  using assms by (induction n) (simp_all add: SMOOTHING_FACTOR_def field_simps)

lemma smooth_iter_position:
  assumes "position st = vec3 (Fin a) (Fin b) (Fin c)"
    and "(if tg_isPresent tg then targetPos tg else vec3 (Fin 0) (Fin 0) (Fin 0)) =
         vec3 (Fin A) (Fin B) (Fin C)"
  shows "position ((smoothPhysics tg ^^ n) st) =
         vec3 (Fin (A - (1 - 0.15) ^ n * (A - a))) (Fin (B - (1 - 0.15) ^ n * (B - b)))
              (Fin (C - (1 - 0.15) ^ n * (C - c)))"
  using assms by (induction n) (simp_all add: lerp_def vec3_def SMOOTHING_FACTOR_def field_simps)

lemma residual_tendsto: "(\<lambda>n. (1 - 0.15 :: real) ^ n * e) \<longlonglongrightarrow> 0"
proof -
  have "(\<lambda>n. (1 - 0.15 :: real) ^ n) \<longlonglongrightarrow> 0"
    by (rule LIMSEQ_realpow_zero) simp_all
  then show ?thesis
    by (rule tendsto_mult_left_zero)
qed

lemma finiteVec_vec3: "finiteVec v \<Longrightarrow> \<exists>a b c. v = vec3 (Fin a) (Fin b) (Fin c)"
proof -
  assume "finiteVec v"
  then obtain a b c where "v_x v = Fin a" "v_y v = Fin b" "v_z v = Fin c"
    unfolding finiteVec_def by (metis isFinite_Fin)
  then have "v = vec3 (Fin a) (Fin b) (Fin c)"
    by (simp add: vec3_def)
  then show ?thesis by blast
qed

lemma vlength_scaled:
  assumes "0 \<le> c"
  shows "vlength (vec3 (Fin (c * x)) (Fin (c * y)) (Fin (c * z))) =
         Fin (c * sqrt (x * x + y * y + z * z))"
proof -
  have eq: "c * x * (c * x) + c * y * (c * y) + c * z * (c * z) =
            c\<^sup>2 * (x * x + y * y + z * z)"
    by (simp add: power2_eq_square algebra_simps)
  have nonneg: "0 \<le> c\<^sup>2 * (x * x + y * y + z * z)"
    by (intro mult_nonneg_nonneg add_nonneg_nonneg zero_le_power2 zero_le_square)
  have root: "sqrt (c\<^sup>2 * (x * x + y * y + z * z)) = c * sqrt (x * x + y * y + z * z)"
    using assms by (simp add: real_sqrt_mult)
  have "vlength (vec3 (Fin (c * x)) (Fin (c * y)) (Fin (c * z))) =
        Math_sqrt (Fin (c\<^sup>2 * (x * x + y * y + z * z)))"
    unfolding vlength_def vec3_def by (simp only: Vector3.simps times_number.simps
      plus_number.simps eq)
  also have "\<dots> = Fin (sqrt (c\<^sup>2 * (x * x + y * y + z * z)))"
    using nonneg by (simp only: Math_sqrt.simps not_less [symmetric] if_False)
  finally show ?thesis
    by (simp only: root)
qed

text \<open>
  Claim C3. For finite smoothed values and a constant finite target, \<open>n\<close> per-frame
  smoothing updates leave a residual error (target minus state) of
  \<open>(1 - SMOOTHING_FACTOR) ^ n\<close> times the initial error, for the grip, the split and
  (componentwise) the position, whose target is the origin when no hand is present;
  so the residuals tend to 0.
\<close>

theorem smoothing_residual:
  assumes "isFinite (gripStrength st)" and "isFinite (splitFactor st)"
    and "finiteVec (position st)"
    and "isFinite (targetGrip tg)" and "isFinite (targetSplit tg)"
    and "finiteVec (targetPos tg)"
  shows "targetGrip tg - gripStrength ((smoothPhysics tg ^^ n) st) =
           Math_pow (Fin 1 - SMOOTHING_FACTOR) n * (targetGrip tg - gripStrength st) \<and>
         targetSplit tg - splitFactor ((smoothPhysics tg ^^ n) st) =
           Math_pow (Fin 1 - SMOOTHING_FACTOR) n * (targetSplit tg - splitFactor st) \<and>
         sub (if tg_isPresent tg then targetPos tg else vec3 (Fin 0) (Fin 0) (Fin 0))
             (position ((smoothPhysics tg ^^ n) st)) =
           multiplyScalar
             (sub (if tg_isPresent tg then targetPos tg else vec3 (Fin 0) (Fin 0) (Fin 0))
                  (position st))
             (Math_pow (Fin 1 - SMOOTHING_FACTOR) n) \<and>
         (\<lambda>k. toReal (targetGrip tg - gripStrength ((smoothPhysics tg ^^ k) st)))
           \<longlonglongrightarrow> 0 \<and>
         (\<lambda>k. toReal (targetSplit tg - splitFactor ((smoothPhysics tg ^^ k) st)))
           \<longlonglongrightarrow> 0 \<and>
         (\<lambda>k. toReal (vlength
            (sub (if tg_isPresent tg then targetPos tg else vec3 (Fin 0) (Fin 0) (Fin 0))
                 (position ((smoothPhysics tg ^^ k) st)))))
           \<longlonglongrightarrow> 0"
proof -
  obtain g T where g: "gripStrength st = Fin g" "targetGrip tg = Fin T"
    using assms(1,4) by (metis isFinite_Fin)
  obtain s S where s: "splitFactor st = Fin s" "targetSplit tg = Fin S"
    using assms(2,5) by (metis isFinite_Fin)
  obtain a b c where p: "position st = vec3 (Fin a) (Fin b) (Fin c)"
    using assms(3) by (metis finiteVec_vec3)
  have "finiteVec (if tg_isPresent tg then targetPos tg else vec3 (Fin 0) (Fin 0) (Fin 0))"
    using assms(6) by (simp add: finiteVec_def vec3_def)
  then obtain A B C where
    tp: "(if tg_isPresent tg then targetPos tg else vec3 (Fin 0) (Fin 0) (Fin 0)) =
         vec3 (Fin A) (Fin B) (Fin C)"
    by (metis finiteVec_vec3)
  note gi = smooth_iter_grip [OF g]
  note si = smooth_iter_split [OF s]
  note pi = smooth_iter_position [OF p tp]
  have r1: "targetGrip tg - gripStrength ((smoothPhysics tg ^^ k) st) =
      Fin ((1 - 0.15) ^ k * (T - g))" for k
    by (simp add: gi g)
  have r2: "targetSplit tg - splitFactor ((smoothPhysics tg ^^ k) st) =
      Fin ((1 - 0.15) ^ k * (S - s))" for k
    by (simp add: si s)
  have r3: "sub (if tg_isPresent tg then targetPos tg else vec3 (Fin 0) (Fin 0) (Fin 0))
             (position ((smoothPhysics tg ^^ k) st)) =
      vec3 (Fin ((1 - 0.15) ^ k * (A - a))) (Fin ((1 - 0.15) ^ k * (B - b)))
           (Fin ((1 - 0.15) ^ k * (C - c)))" for k
    unfolding tp pi by (simp add: sub_def vec3_def)
  have e1: "Math_pow (Fin 1 - SMOOTHING_FACTOR) n * (targetGrip tg - gripStrength st) =
      Fin ((1 - 0.15) ^ n * (T - g))"
    by (simp add: g SMOOTHING_FACTOR_def)
  have e2: "Math_pow (Fin 1 - SMOOTHING_FACTOR) n * (targetSplit tg - splitFactor st) =
      Fin ((1 - 0.15) ^ n * (S - s))"
    by (simp add: s SMOOTHING_FACTOR_def)
  have e3: "multiplyScalar
             (sub (if tg_isPresent tg then targetPos tg else vec3 (Fin 0) (Fin 0) (Fin 0))
                  (position st))
             (Math_pow (Fin 1 - SMOOTHING_FACTOR) n) =
      vec3 (Fin ((1 - 0.15) ^ n * (A - a))) (Fin ((1 - 0.15) ^ n * (B - b)))
           (Fin ((1 - 0.15) ^ n * (C - c)))"
    unfolding tp p by (simp add: sub_def vec3_def multiplyScalar_def SMOOTHING_FACTOR_def)
  have len: "toReal (vlength (vec3 (Fin ((1 - 0.15) ^ k * x)) (Fin ((1 - 0.15) ^ k * y))
                (Fin ((1 - 0.15) ^ k * z)))) =
      (1 - 0.15) ^ k * sqrt (x * x + y * y + z * z)" for k x y z
    by (simp add: vlength_scaled)
  show ?thesis
    unfolding r1 r2 r3 e1 e2 e3 toReal.simps len
    by (intro conjI refl residual_tendsto)
qed

theorem smoothing_residual_witness:
  "targetGrip exampleTargets - gripStrength ((smoothPhysics exampleTargets ^^ 2) initialPhysics) =
     Fin 0.7225 \<and>
   targetSplit exampleTargets - splitFactor ((smoothPhysics exampleTargets ^^ 2) initialPhysics) =
     Fin 0.36125 \<and>
   (\<lambda>k. toReal (targetGrip exampleTargets -
      gripStrength ((smoothPhysics exampleTargets ^^ k) initialPhysics))) \<longlonglongrightarrow> 0"
proof -
  have fin: "isFinite (gripStrength initialPhysics)" "isFinite (splitFactor initialPhysics)"
    "finiteVec (position initialPhysics)" "isFinite (targetGrip exampleTargets)"
    "isFinite (targetSplit exampleTargets)" "finiteVec (targetPos exampleTargets)"
    by (simp_all add: initialPhysics_def exampleTargets_def finiteVec_def vec3_def)
  have g: "Math_pow (Fin 1 - SMOOTHING_FACTOR) 2 *
      (targetGrip exampleTargets - gripStrength initialPhysics) = Fin 0.7225"
    by (simp add: SMOOTHING_FACTOR_def exampleTargets_def initialPhysics_def power2_eq_square)
  have s: "Math_pow (Fin 1 - SMOOTHING_FACTOR) 2 *
      (targetSplit exampleTargets - splitFactor initialPhysics) = Fin 0.36125"
    by (simp add: SMOOTHING_FACTOR_def exampleTargets_def initialPhysics_def power2_eq_square)
  from smoothing_residual [OF fin, of 2] show ?thesis
    unfolding g s by blast
qed

section \<open>The unit interval\<close>

lemma in01_Fin: "in01 a = (\<exists>r. a = Fin r \<and> 0 \<le> r \<and> r \<le> 1)"
  by (cases a) (auto simp: in01_def less_eq_number_def)

lemma smooth_in01:
  assumes "in01 a" "in01 b"
  shows "in01 (a + (b - a) * SMOOTHING_FACTOR)"
proof -
  from assms obtain x y where xy: "a = Fin x" "0 \<le> x" "x \<le> 1" "b = Fin y" "0 \<le> y" "y \<le> 1"
    unfolding in01_Fin by blast
  have "x + (y - x) * 0.15 = 0.85 * x + 0.15 * y"
    by (simp add: field_simps)
  moreover have "0 \<le> 0.85 * x + 0.15 * y"
    using xy by simp
  moreover have "0.85 * x + 0.15 * y \<le> 1"
    using xy by simp
  ultimately have "0 \<le> x + (y - x) * 0.15 \<and> x + (y - x) * 0.15 \<le> 1"
    by simp
  then show ?thesis
    unfolding in01_Fin xy SMOOTHING_FACTOR_def by simp
qed

lemma finite_landmark:
  assumes "isFinite (lm_x l)" "isFinite (lm_y l)" "isFinite (lm_z l)"
  shows "l = finLandmark (toReal (lm_x l), toReal (lm_y l), toReal (lm_z l))"
proof -
  from assms obtain a b c where "lm_x l = Fin a" "lm_y l = Fin b" "lm_z l = Fin c"
    by (metis isFinite_Fin)
  then show ?thesis
    by (cases l) (simp add: finLandmark_def)
qed

lemma finiteHand_map:
  assumes "finiteHand h"
  shows "\<exists>pts. h = map finLandmark pts"
proof -
  have "h = map finLandmark (map (\<lambda>l. (toReal (lm_x l), toReal (lm_y l), toReal (lm_z l))) h)"
    using assms unfolding finiteHand_def
    by (induction h) (simp_all add: finite_landmark [symmetric])
  then show ?thesis ..
qed

lemma spec_grip_range: "0 \<le> spec_grip a s \<and> spec_grip a s \<le> 1"
  by (simp add: spec_grip_def)

lemma calculateGrip_in01:
  assumes "finiteHand h" and "Fin 0 < scaleBase h" and "calculateGrip h = Inr g"
  shows "in01 g"
proof -
  from assms(3) have len: "21 \<le> length h"
    by (simp add: calculateGrip_def split: if_splits)
  from assms(1) obtain pts where h: "h = map finLandmark pts"
    using finiteHand_map by blast
  with len have lp: "21 \<le> length pts"
    by simp
  from assms(2) have "spec_scaleBase pts \<noteq> 0"
    unfolding h by (simp add: scaleBase_fin [OF lp])
  with lp have "calculateGrip h = Inr (Fin (spec_grip (spec_avgDist pts) (spec_scaleBase pts)))"
    unfolding h by (rule calculateGrip_fin)
  with assms(3) show ?thesis
    by (auto simp: in01_Fin spec_grip_range)
qed

lemma average_in01:
  assumes "in01 a" "in01 b"
  shows "in01 ((a + b) / Fin 2)"
proof -
  from assms obtain x y where xy: "a = Fin x" "0 \<le> x" "x \<le> 1" "b = Fin y" "0 \<le> y" "y \<le> 1"
    unfolding in01_Fin by blast
  then have "(a + b) / Fin 2 = Fin ((x + y) / 2)" "0 \<le> (x + y) / 2" "(x + y) / 2 \<le> 1"
    by simp_all
  then show ?thesis
    unfolding in01_Fin by blast
qed

lemma split_in01:
  assumes "finiteHand h1" "finiteHand h2" "9 < length h1" "9 < length h2"
  shows "in01 (Math_max (Fin 0) (Math_min (Fin 1)
           ((Math_sqrt (Math_pow (lm_x (h1 ! 9) - lm_x (h2 ! 9)) 2 +
                        Math_pow (lm_y (h1 ! 9) - lm_y (h2 ! 9)) 2) - Fin 0.1) / Fin 0.5)))"
proof -
  from assms obtain p1 p2 where h: "h1 = map finLandmark p1" "h2 = map finLandmark p2"
    using finiteHand_map by blast
  with assms have "h1 ! 9 = finLandmark (p1 ! 9)" "h2 ! 9 = finLandmark (p2 ! 9)"
    by simp_all
  then show ?thesis
    by (simp only: landmark9_dist clamp_split) (simp add: in01_Fin spec_split_range)
qed

lemma in01_zero [simp]: "in01 (Fin 0)"
  by (simp add: in01_Fin)

lemma detectTargets_in01:
  assumes hands: "\<forall>h\<in>set results. finiteHand h \<and> Fin 0 < scaleBase h"
    and res: "detectTargets cam results = Inr tg"
  shows "in01 (targetGrip tg) \<and> in01 (targetSplit tg)"
proof (cases "results = []")
  case True
  with res show ?thesis
    by (auto simp: detectTargets_def defaultTargets_def)
next
  case False
  show ?thesis
  proof (cases "length results = 2")
    case True
    then obtain h1 h2 where r: "results = [h1, h2]"
      by (cases results; cases "tl results") auto
    from res have len: "9 < length h1" "9 < length h2"
      unfolding r by (auto simp: detectTargets_def Let_def split: if_splits)
    from res len obtain g1 g2 where g: "calculateGrip h1 = Inr g1" "calculateGrip h2 = Inr g2"
      unfolding r by (auto simp: detectTargets_def Let_def split: if_splits sum.splits)
    from hands r have fin: "finiteHand h1" "finiteHand h2"
      and pos: "Fin 0 < scaleBase h1" "Fin 0 < scaleBase h2"
      by simp_all
    have "in01 g1" "in01 g2"
      using calculateGrip_in01 fin pos g by blast+
    then have "in01 ((g1 + g2) / Fin 2)"
      by (rule average_in01)
    moreover note split_in01 [OF fin len]
    ultimately show ?thesis
      using res unfolding r detectTargets_dual [OF len g] by auto
  next
    case two: False
    from False have h0: "results ! 0 \<in> set results"
      by simp
    from res False two obtain g1 where g: "calculateGrip (results ! 0) = Inr g1"
      and tg: "targetGrip tg = g1" "targetSplit tg = Fin 0"
      by (auto simp: detectTargets_def Let_def split: if_splits sum.splits)
    from hands h0 g have "in01 g1"
      using calculateGrip_in01 by blast
    with tg show ?thesis
      by simp
  qed
qed

lemma animate_in01:
  assumes hands: "\<forall>h\<in>set (detection t). finiteHand h \<and> Fin 0 < scaleBase h"
    and inv: "in01 (gripStrength (physicsState w)) \<and> in01 (splitFactor (physicsState w))"
  shows "in01 (gripStrength (physicsState (snd (animate t w)))) \<and>
         in01 (splitFactor (physicsState (snd (animate t w))))"
proof (cases "ready t")
  case False
  with inv show ?thesis
    by (simp add: animate_def Let_def)
next
  case True
  show ?thesis
  proof (cases "snd (processVision t w)")
    case (Inl e)
    with True inv show ?thesis
      by (auto simp: animate_def processVision_def Let_def split: prod.splits if_splits)
  next
    case (Inr tg)
    have tg: "in01 (targetGrip tg) \<and> in01 (targetSplit tg)"
    proof (cases "strictNotEqual (currentTime t) (lastTimeRef w)")
      case True
      with Inr have "detectTargets (cameraRef w) (detection t) = Inr tg"
        by (simp add: processVision_def)
      with hands show ?thesis
        by (rule detectTargets_in01)
    next
      case False
      with Inr have "tg = defaultTargets"
        by (simp add: processVision_def)
      then show ?thesis
        by (simp add: defaultTargets_def)
    qed
    with inv show ?thesis
      unfolding animate_physics [OF True Inr] by (simp add: smooth_in01)
  qed
qed

lemma run_in01:
  assumes "\<forall>t\<in>set ticks. \<forall>h\<in>set (detection t). finiteHand h \<and> Fin 0 < scaleBase h"
    and "in01 (gripStrength (physicsState w)) \<and> in01 (splitFactor (physicsState w))"
  shows "in01 (gripStrength (physicsState (run ticks w))) \<and>
         in01 (splitFactor (physicsState (run ticks w)))"
  using assms
proof (induction ticks arbitrary: w)
  case Nil
  then show ?case by (simp add: run_def)
next
  case (Cons t ticks)
  from Cons.prems have step:
    "in01 (gripStrength (physicsState (snd (animate t w)))) \<and>
     in01 (splitFactor (physicsState (snd (animate t w))))"
    by (intro animate_in01) simp_all
  have "run (t # ticks) w = run ticks (snd (animate t w))"
    by (simp add: run_def)
  with Cons.IH [OF _ step] Cons.prems(1) show ?case
    by simp
qed

lemma finiteHand_fin [simp]: "finiteHand (map finLandmark pts)"
  by (simp add: finiteHand_def list_all_iff finLandmark_def)

text \<open>
  Claim C6. If every landmark set a tick processes has finite coordinates and a
  strictly positive \<open>scaleBase\<close>, then after every tick of a run that starts from the
  initial state the smoothed \<open>gripStrength\<close> and \<open>splitFactor\<close> lie in \<open>[0, 1]\<close>.
\<close>

theorem smoothed_values_in_unit_interval:
  assumes "\<forall>t\<in>set ticks. \<forall>h\<in>set (detection t). finiteHand h \<and> Fin 0 < scaleBase h"
  shows "in01 (gripStrength (physicsState (run (take n ticks) (initialWorld cam mesh)))) \<and>
         in01 (splitFactor (physicsState (run (take n ticks) (initialWorld cam mesh))))"
proof -
  have "\<forall>t\<in>set (take n ticks). \<forall>h\<in>set (detection t). finiteHand h \<and> Fin 0 < scaleBase h"
    using assms by (meson in_set_takeD)
  moreover have "in01 (gripStrength (physicsState (initialWorld cam mesh))) \<and>
      in01 (splitFactor (physicsState (initialWorld cam mesh)))"
    by (simp add: initialWorld_def initialPhysics_def)
  ultimately show ?thesis
    by (rule run_in01)
qed

theorem smoothed_values_in_unit_interval_witness:
  "in01 (gripStrength (physicsState (run exampleTicks exampleWorld))) \<and>
   in01 (splitFactor (physicsState (run exampleTicks exampleWorld)))"
proof -
  have pos: "0 < b \<Longrightarrow> Fin 0 < scaleBase (map finLandmark (exampleHand x b r))" for x b r
    by (simp add: scaleBase_fin)
  have hands: "\<forall>t\<in>set exampleTicks. \<forall>h\<in>set (detection t).
      finiteHand h \<and> Fin 0 < scaleBase h"
    by (simp add: exampleTicks_def handTick_def pos)
  have all: "take 3 exampleTicks = exampleTicks"
    by (simp add: exampleTicks_def)
  from smoothed_values_in_unit_interval [OF hands, of 3 "Some exampleCamera" "Some exampleMesh"]
  show ?thesis
    unfolding all exampleWorld_def .
qed

section \<open>A hand of scale zero\<close>






lemma NaN_absorbs [simp]:
  "NaN + a = NaN" "a + NaN = NaN" "NaN - a = NaN" "a - NaN = NaN" "NaN * a = NaN" "a * NaN = NaN"
  by (cases a; simp add: minus_number_def)+





section \<open>The gesture of the UI snapshot\<close>

lemma detectTargets_mode:
  "detectTargets cam results = Inr tg \<Longrightarrow> (tg_trackingMode tg \<noteq> NONE_mode) = (results \<noteq> [])"
  by (auto simp: detectTargets_def Let_def defaultTargets_def split: if_splits sum.splits)

lemma animate_ok_handData:
  assumes "ready t" and "fst (animate t w) = None"
  shows "\<exists>tg. snd (processVision t w) = Inr tg \<and>
              handData (snd (animate t w)) =
                syncUI (tg_trackingMode tg) (physicsState (snd (animate t w))) (handData w)"
  using assms
  by (auto simp: animate_def processVision_def Let_def
           split: prod.splits sum.splits option.splits if_splits)

text \<open>
  Claim C2 says the gesture of the snapshot is, every frame, a function of the smoothed
  values and of hand presence that ends in NONE when no hand is present. The code
  rebuilds the snapshot only on a tick with a tracking mode; on a tick without one it
  keeps the previous snapshot and overwrites \<open>isPresent\<close> alone. After five ticks that
  see a closed hand (smoothed grip above 0.5, gesture GRIP) a tick that sees no hand
  leaves the gesture GRIP with \<open>isPresent\<close> false, where the claim's classification
  of that frame's values gives NONE.
\<close>

theorem gesture_of_tick_counterexample:
  "gesture (handData (run gripThenLost exampleWorld)) = GRIP \<and>
   \<not> isPresent (handData (run gripThenLost exampleWorld)) \<and>
   spec_gesture (splitFactor (physicsState (run gripThenLost exampleWorld)))
     (gripStrength (physicsState (run gripThenLost exampleWorld)))
     (isPresent (handData (run gripThenLost exampleWorld))) = NONE"
proof -
  define w1 where "w1 = snd (animate (handTick 1 [fist]) exampleWorld)"
  define w2 where "w2 = snd (animate (handTick 2 [fist]) w1)"
  define w3 where "w3 = snd (animate (handTick 3 [fist]) w2)"
  define w4 where "w4 = snd (animate (handTick 4 [fist]) w3)"
  define w5 where "w5 = snd (animate (handTick 5 [fist]) w4)"
  define w6 where "w6 = snd (animate (handTick 6 []) w5)"
  have run: "run gripThenLost exampleWorld = w6"
    by (simp add: run_def gripThenLost_def w1_def w2_def w3_def w4_def w5_def w6_def)
  note fg = fist_grip [THEN conjunct1] fist_grip [THEN conjunct2]
  have s0: "meshReady exampleWorld" "lastTimeRef exampleWorld = Fin 0"
    "gripStrength (physicsState exampleWorld) = Fin 0"
    "splitFactor (physicsState exampleWorld) = Fin 0"
    by (simp_all add: exampleWorld_def initialWorld_def initialPhysics_def meshReady_def)
  have s1: "meshReady w1" "lastTimeRef w1 = Fin 1"
    "gripStrength (physicsState w1) = Fin (3 / 20)" "splitFactor (physicsState w1) = Fin 0"
    using single_hand_tick [OF s0(1,2) _ fg s0(3,4), of 1] by (simp_all add: w1_def)
  have s2: "meshReady w2" "lastTimeRef w2 = Fin 2"
    "gripStrength (physicsState w2) = Fin (111 / 400)" "splitFactor (physicsState w2) = Fin 0"
    using single_hand_tick [OF s1(1,2) _ fg s1(3,4), of 2] by (simp_all add: w2_def)
  have s3: "meshReady w3" "lastTimeRef w3 = Fin 3"
    "gripStrength (physicsState w3) = Fin (3087 / 8000)" "splitFactor (physicsState w3) = Fin 0"
    using single_hand_tick [OF s2(1,2) _ fg s2(3,4), of 3] by (simp_all add: w3_def)
  have s4: "meshReady w4" "lastTimeRef w4 = Fin 4"
    "gripStrength (physicsState w4) = Fin (76479 / 160000)" "splitFactor (physicsState w4) = Fin 0"
    using single_hand_tick [OF s3(1,2) _ fg s3(3,4), of 4] by (simp_all add: w4_def)
  have s5: "meshReady w5"
    "gripStrength (physicsState w5) = Fin (1780143 / 3200000)"
    "splitFactor (physicsState w5) = Fin 0"
    "handData w5 = syncUI SINGLE (physicsState w5) (handData w4)"
    using single_hand_tick [OF s4(1,2) _ fg s4(3,4), of 5] by (simp_all add: w5_def)
  have g5: "gesture (handData w5) = GRIP"
    unfolding s5(4) by (simp add: syncUI_def s5(2,3))
  have s6: "gripStrength (physicsState w6) = Fin (30262431 / 64000000)"
    "splitFactor (physicsState w6) = Fin 0"
    "handData w6 = (handData w5)\<lparr>isPresent := False\<rparr>"
    using no_hand_tick [OF s5(1,2,3), of 6] by (simp_all add: w6_def)
  show ?thesis
    unfolding run by (simp add: s6 g5 spec_gesture_def)
qed

text \<open>
  Claim C2, amended. On a tick that runs to its end (the landmarker, the video and the
  scene exist), a hand is present in the snapshot exactly when detection ran (the
  video's timestamp is new) and returned at least one hand. Then the gesture is
  classified from the smoothed values, first match first: \<open>splitFactor > 0.3\<close> gives
  SPLIT, otherwise \<open>gripStrength > 0.5\<close> gives GRIP, otherwise HOVER. When no hand is
  present the snapshot keeps the gesture of the previous snapshot (NONE initially).
\<close>

theorem gesture_of_tick:
  assumes "ready t" and "fst (animate t w) = None"
  shows "isPresent (handData (snd (animate t w))) =
           (strictNotEqual (currentTime t) (lastTimeRef w) \<and> detection t \<noteq> []) \<and>
         (isPresent (handData (snd (animate t w))) \<longrightarrow>
            gesture (handData (snd (animate t w))) =
              (if Fin 0.3 < splitFactor (physicsState (snd (animate t w))) then SPLIT
               else if Fin 0.5 < gripStrength (physicsState (snd (animate t w))) then GRIP
               else HOVER)) \<and>
         (\<not> isPresent (handData (snd (animate t w))) \<longrightarrow>
            gesture (handData (snd (animate t w))) = gesture (handData w))"
proof -
  from animate_ok_handData [OF assms] obtain tg where
    pv: "snd (processVision t w) = Inr tg" and
    ui: "handData (snd (animate t w)) =
           syncUI (tg_trackingMode tg) (physicsState (snd (animate t w))) (handData w)"
    by blast
  have mode: "(tg_trackingMode tg \<noteq> NONE_mode) =
      (strictNotEqual (currentTime t) (lastTimeRef w) \<and> detection t \<noteq> [])"
  proof (cases "strictNotEqual (currentTime t) (lastTimeRef w)")
    case True
    with pv have "detectTargets (cameraRef w) (detection t) = Inr tg"
      by (simp add: processVision_def)
    from detectTargets_mode [OF this] True show ?thesis
      by simp
  next
    case False
    with pv have "tg = defaultTargets"
      by (simp add: processVision_def)
    with False show ?thesis
      by (simp add: defaultTargets_def)
  qed
  show ?thesis
    unfolding ui mode [symmetric] by (simp add: syncUI_def)
qed

theorem gesture_of_tick_witness:
  "isPresent (handData (snd (animate (handTick 1 [fist]) exampleWorld))) \<and>
   gesture (handData (snd (animate (handTick 1 [fist]) exampleWorld))) = HOVER \<and>
   \<not> isPresent (handData (snd (animate (handTick 1 []) exampleWorld))) \<and>
   gesture (handData (snd (animate (handTick 1 []) exampleWorld))) = NONE"
proof -
  have s0: "meshReady exampleWorld" "lastTimeRef exampleWorld = Fin 0"
    "gripStrength (physicsState exampleWorld) = Fin 0"
    "splitFactor (physicsState exampleWorld) = Fin 0"
    by (simp_all add: exampleWorld_def initialWorld_def initialPhysics_def meshReady_def)
  have r: "ready (handTick 1 hs)" for hs
    by (simp add: handTick_def)
  have pv1: "\<exists>tg. snd (processVision (handTick 1 [fist]) exampleWorld) = Inr tg"
    using detectTargets_single [of "map finLandmark fist" "Fin 1" "cameraRef exampleWorld"]
      fist_grip
    by (simp add: processVision_def handTick_def)
  then obtain tg where "snd (processVision (handTick 1 [fist]) exampleWorld) = Inr tg" ..
  from animate_handData [OF r this s0(1)]
  have ok1: "fst (animate (handTick 1 [fist]) exampleWorld) = None"
    by simp
  have "snd (processVision (handTick 1 []) exampleWorld) = Inr defaultTargets"
    by (simp add: processVision_def handTick_def detectTargets_def)
  from animate_handData [OF r this s0(1)]
  have ok2: "fst (animate (handTick 1 []) exampleWorld) = None"
    by simp
  have fresh: "strictNotEqual (currentTime (handTick 1 hs)) (lastTimeRef exampleWorld)" for hs
    by (simp add: handTick_def s0(2) strictNotEqual_def)
  have vals: "splitFactor (physicsState (snd (animate (handTick 1 [fist]) exampleWorld))) = Fin 0"
    "gripStrength (physicsState (snd (animate (handTick 1 [fist]) exampleWorld))) = Fin (3 / 20)"
    using single_hand_tick [OF s0(1,2) _ fist_grip [THEN conjunct1]
        fist_grip [THEN conjunct2] s0(3,4), of 1]
    by simp_all
  have initial: "gesture (handData exampleWorld) = NONE"
    by (simp add: exampleWorld_def initialWorld_def initialHandData_def)
  have d: "detection (handTick 1 [fist]) \<noteq> []" "detection (handTick 1 []) = []"
    by (simp_all add: handTick_def)
  from gesture_of_tick [OF r ok1] gesture_of_tick [OF r ok2]
  show ?thesis
    by (simp add: vals initial d fresh)
qed

end
